theory Spec2Isabelle
  imports Main "HOL-Library.Word" "HOL-Library.AList"
begin

section \<open>JavaScript strings and objects\<close>

text \<open>
  A JavaScript string is a sequence of UTF-16 code units: \<open>length\<close>, \<open>trim\<close> and a
  regular expression without the \<open>u\<close> flag all work on code units. Form values, query
  parameters and tokens are such strings. Fixed identifiers of the program (property
  names, route paths, message ids, event names) and display text are written as HOL
  strings.
\<close>

type_synonym code_unit = "16 word"
type_synonym jsstring = "code_unit list"

definition str :: "string \<Rightarrow> jsstring" where
  "str s = map of_char s"

text \<open>
  \<open>String.prototype.trim\<close> removes WhiteSpace and LineTerminator code units from both
  ends: TAB, VT, FF, SP, NBSP, ZWNBSP, the Unicode space separators, LF, CR, LS and PS.
\<close>

definition isWhiteSpace :: "code_unit \<Rightarrow> bool" where
  "isWhiteSpace c \<longleftrightarrow>
     c \<in> set [0x0009, 0x000A, 0x000B, 0x000C, 0x000D, 0x0020, 0x00A0, 0x1680,
               0x2028, 0x2029, 0x202F, 0x205F, 0x3000, 0xFEFF]
     \<or> (0x2000 \<le> c \<and> c \<le> 0x200A)"

definition trim :: "jsstring \<Rightarrow> jsstring" where
  "trim s = rev (dropWhile isWhiteSpace (rev (dropWhile isWhiteSpace s)))"

text \<open>
  An object is its list of own properties in insertion order, as \<open>Object.entries\<close>
  reads it. \<open>assign\<close> is \<open>obj[key] = value\<close>: an existing key keeps its place and gets
  the new value, a new key goes to the end. \<open>getProp\<close> is \<open>obj[key]\<close>, \<open>omit\<close> is lodash's.
\<close>

datatype jsvalue =
    JUndefined
  | JBool bool
  | JString jsstring
  | JObject "(string \<times> jsvalue) list"

type_synonym jsobject = "(string \<times> jsvalue) list"

definition assign :: "string \<Rightarrow> jsvalue \<Rightarrow> jsobject \<Rightarrow> jsobject" where
  "assign key v obj = AList.update key v obj"

definition getProp :: "jsobject \<Rightarrow> string \<Rightarrow> jsvalue" where
  "getProp obj key = (case map_of obj key of None \<Rightarrow> JUndefined | Some v \<Rightarrow> v)"

definition omit :: "jsobject \<Rightarrow> string list \<Rightarrow> jsobject" where
  "omit obj keys = filter (\<lambda>kv. fst kv \<notin> set keys) obj"

fun truthy :: "jsvalue \<Rightarrow> bool" where
  "truthy JUndefined = False"
| "truthy (JBool b) = b"
| "truthy (JString s) = (s \<noteq> [])"
| "truthy (JObject obj) = True"

text \<open>A string-or-undefined value as a JavaScript value (\<open>None\<close> is \<open>undefined\<close>).\<close>

definition optString :: "jsstring option \<Rightarrow> jsvalue" where
  "optString v = (case v of None \<Rightarrow> JUndefined | Some s \<Rightarrow> JString s)"

section \<open>Register: form values and normalizeData\<close>

record RegisterFormValues =
  firstname :: jsstring
  lastname :: jsstring
  email :: jsstring
  password :: jsstring
  confirmPassword :: jsstring
  registrationToken :: "jsstring option"
  news :: bool

definition entries :: "RegisterFormValues \<Rightarrow> jsobject" where
  "entries data =
     [(''firstname'', JString (firstname data)),
      (''lastname'', JString (lastname data)),
      (''email'', JString (email data)),
      (''password'', JString (password data)),
      (''confirmPassword'', JString (confirmPassword data)),
      (''registrationToken'', optString (registrationToken data)),
      (''news'', JBool (news data))]"

text \<open>
  The reducer of \<open>normalizeData\<close>. For a string under a key other than the two
  password keys it stores \<open>value.trim()\<close>; under the key \<open>lastname\<close> it then stores
  \<open>value || undefined\<close>, which reads \<open>value\<close> again, not the trimmed string. Every
  other entry is copied.
\<close>

fun normalizeEntry :: "jsobject \<Rightarrow> string \<times> jsvalue \<Rightarrow> jsobject" where
  "normalizeEntry acc (key, JString s) =
     (if key \<notin> set [''password'', ''confirmPassword'']
      then (let acc1 = assign key (JString (trim s)) acc
            in if key = ''lastname''
               then assign key (if truthy (JString s) then JString s else JUndefined) acc1
               else acc1)
      else assign key (JString s) acc)"
| "normalizeEntry acc (key, v) = assign key v acc"

definition normalizeData :: "RegisterFormValues \<Rightarrow> jsobject" where
  "normalizeData data = foldl normalizeEntry [] (entries data)"

section \<open>The validation schemas\<close>

text \<open>
  A message handed to a schema rule is an object \<open>{id, defaultMessage, values}\<close>. The
  ids taken from \<open>translatedErrors\<close> of the helper plugin are kept symbolic
  (\<open>Translated ''required''\<close> is \<open>translatedErrors.required\<close>); the others are the
  literal ids of the source.
\<close>

datatype message_id = Translated string | Literal string

record message =
  msg_id :: message_id
  defaultMessage :: string
  msg_values :: "(string \<times> nat) list"

text \<open>
  The message of a validation error is the object given to the rule, or the library's
  own text (a string) for a rule that was given none.
\<close>

datatype yup_message = MessageObject message | MessageString string

record ValidationError =
  path :: "string option"
  message :: yup_message

text \<open>
  The part of the \<open>yup\<close> string schema that the three schemas use. Every field they
  name holds a string or \<open>undefined\<close> in the form values, so a field's value is read as
  \<open>jsstring option\<close>; the type check and the cast of non-strings never apply. A test gets
  the parent object (for \<open>yup.ref\<close>) and the value, and says whether it passes.
  \<^item> \<open>transforms\<close> run when the object is cast, unless the field is \<open>strict\<close>;
  \<^item> the \<open>oneOf\<close> test is kept apart (\<open>whitelistError\<close>): it runs before the other
    tests, and when it fails they are not run;
  \<^item> the other tests are kept in the order of the builder calls; with
    \<open>abortEarly: false\<close> every failing one reports its error, in that order.
\<close>

type_synonym test = "jsobject \<Rightarrow> jsstring option \<Rightarrow> bool"

record schema =
  transforms :: "(jsstring \<Rightarrow> jsstring) list"
  strict :: bool
  nullable :: bool
  whitelistError :: "(test \<times> yup_message) option"
  tests :: "(test \<times> yup_message) list"

definition yup_string :: schema where
  "yup_string = \<lparr>transforms = [], strict = False, nullable = False,
                  whitelistError = None, tests = []\<rparr>"

definition addTest :: "test \<Rightarrow> yup_message \<Rightarrow> schema \<Rightarrow> schema" where
  "addTest t m s = s\<lparr>tests := tests s @ [(t, m)]\<rparr>"

definition addTransform :: "(jsstring \<Rightarrow> jsstring) \<Rightarrow> schema \<Rightarrow> schema" where
  "addTransform f s = s\<lparr>transforms := transforms s @ [f]\<rparr>"

text \<open>A chain of builder calls \<open>yup.string().a().b()\<close> is \<open>chain [a, b]\<close>.\<close>

definition chain :: "(schema \<Rightarrow> schema) list \<Rightarrow> schema" where
  "chain calls = fold (\<lambda>call s. call s) calls yup_string"

definition isPresent :: test where
  "isPresent parent v = (case v of None \<Rightarrow> False | Some s \<Rightarrow> s \<noteq> [])"

definition required :: "message \<Rightarrow> schema \<Rightarrow> schema" where
  "required m = addTest isPresent (MessageObject m)"

definition minLength :: "nat \<Rightarrow> test" where
  "minLength n parent v = (case v of None \<Rightarrow> True | Some s \<Rightarrow> n \<le> length s)"

definition yup_min :: "nat \<Rightarrow> message \<Rightarrow> schema \<Rightarrow> schema" where
  "yup_min n m = addTest (minLength n) (MessageObject m)"

text \<open>
  \<open>matches\<close> with a pattern that is one character class: \<open>value.search(regex) !== -1\<close>
  holds when some code unit of the value is in the class.
\<close>

definition searchClass :: "(code_unit \<Rightarrow> bool) \<Rightarrow> test" where
  "searchClass cls parent v = (case v of None \<Rightarrow> True | Some s \<Rightarrow> list_ex cls s)"

definition matches :: "(code_unit \<Rightarrow> bool) \<Rightarrow> message \<Rightarrow> schema \<Rightarrow> schema" where
  "matches cls m = addTest (searchClass cls) (MessageObject m)"

definition lower_az :: "code_unit \<Rightarrow> bool" where
  "lower_az c \<longleftrightarrow> 0x61 \<le> c \<and> c \<le> 0x7A"

definition upper_AZ :: "code_unit \<Rightarrow> bool" where
  "upper_AZ c \<longleftrightarrow> 0x41 \<le> c \<and> c \<le> 0x5A"

definition digit :: "code_unit \<Rightarrow> bool" where
  "digit c \<longleftrightarrow> 0x30 \<le> c \<and> c \<le> 0x39"

definition isTrimmed :: test where
  "isTrimmed parent v = (case v of None \<Rightarrow> True | Some s \<Rightarrow> s = trim s)"

definition yup_trim :: "schema \<Rightarrow> schema" where
  "yup_trim s = addTest isTrimmed (MessageString ''must be a trimmed string'')
                  (addTransform trim s)"

definition yup_nullable :: "schema \<Rightarrow> schema" where
  "yup_nullable s = s\<lparr>nullable := True\<rparr>"

definition yup_strict :: "schema \<Rightarrow> schema" where
  "yup_strict s = s\<lparr>strict := True\<rparr>"

text \<open>
  \<open>oneOf([yup.ref(key), null])\<close>: an undefined value passes; a string passes when it
  is the value of the referenced property of the parent.
\<close>

definition inWhitelistRef :: "string \<Rightarrow> test" where
  "inWhitelistRef key parent v =
     (case v of None \<Rightarrow> True | Some s \<Rightarrow> getProp parent key = JString s)"

definition oneOfRef :: "string \<Rightarrow> message \<Rightarrow> schema \<Rightarrow> schema" where
  "oneOfRef key m s = s\<lparr>whitelistError := Some (inWhitelistRef key, MessageObject m)\<rparr>"

text \<open>
  \<open>email\<close> is \<open>matches\<close> with the library's e-mail pattern and \<open>excludeEmptyString\<close>;
  \<open>lowercase\<close> adds the transform and the test \<open>value === value.toLowerCase()\<close>. The
  pattern and \<open>toLowerCase\<close> are parameters.
\<close>

definition emailTest :: "(jsstring \<Rightarrow> bool) \<Rightarrow> test" where
  "emailTest isEmail parent v =
     (case v of None \<Rightarrow> True | Some s \<Rightarrow> s = [] \<or> isEmail s)"

definition yup_email :: "(jsstring \<Rightarrow> bool) \<Rightarrow> message \<Rightarrow> schema \<Rightarrow> schema" where
  "yup_email isEmail m = addTest (emailTest isEmail) (MessageObject m)"

definition lowercaseTest :: "(jsstring \<Rightarrow> jsstring) \<Rightarrow> test" where
  "lowercaseTest toLowerCase parent v =
     (case v of None \<Rightarrow> True | Some s \<Rightarrow> s = toLowerCase s)"

definition yup_lowercase :: "(jsstring \<Rightarrow> jsstring) \<Rightarrow> message \<Rightarrow> schema \<Rightarrow> schema" where
  "yup_lowercase toLowerCase m s =
     addTest (lowercaseTest toLowerCase) (MessageObject m) (addTransform toLowerCase s)"

subsection \<open>Running a schema\<close>

text \<open>
  \<open>schema.validate(value, {abortEarly: false})\<close> on an object schema casts the object,
  then validates every field against the cast object. The result is the list
  \<open>err.inner\<close> of the rejection; the empty list is a resolved promise.
\<close>

definition castField :: "schema \<Rightarrow> jsvalue \<Rightarrow> jsvalue" where
  "castField s v =
     (case v of
        JString x \<Rightarrow> if strict s then v else JString (fold (\<lambda>f y. f y) (transforms s) x)
      | _ \<Rightarrow> v)"

definition castObject :: "(string \<times> schema) list \<Rightarrow> jsobject \<Rightarrow> jsobject" where
  "castObject shape obj =
     map (\<lambda>kv. (fst kv, case map_of shape (fst kv) of
                          None \<Rightarrow> snd kv
                        | Some s \<Rightarrow> castField s (snd kv))) obj"

definition stringField :: "jsobject \<Rightarrow> string \<Rightarrow> jsstring option" where
  "stringField obj key = (case getProp obj key of JString s \<Rightarrow> Some s | _ \<Rightarrow> None)"

definition failing ::
  "(test \<times> yup_message) list \<Rightarrow> jsobject \<Rightarrow> string \<Rightarrow> jsstring option \<Rightarrow> ValidationError list"
where
  "failing ts parent key v =
     map (\<lambda>tm. \<lparr>path = Some key, message = snd tm\<rparr>)
         (filter (\<lambda>tm. \<not> fst tm parent v) ts)"

definition validateField :: "jsobject \<Rightarrow> string \<times> schema \<Rightarrow> ValidationError list" where
  "validateField parent ks =
     (let key = fst ks; s = snd ks;
          v = stringField parent key;
          initial = failing (case whitelistError s of None \<Rightarrow> [] | Some t \<Rightarrow> [t]) parent key v
      in if initial \<noteq> [] then initial else failing (tests s) parent key v)"

definition validate :: "(string \<times> schema) list \<Rightarrow> jsobject \<Rightarrow> ValidationError list" where
  "validate shape obj =
     (let v = castObject shape obj in concat (map (validateField v) shape))"

subsection \<open>The three schemas\<close>

definition msg :: "message_id \<Rightarrow> string \<Rightarrow> message" where
  "msg i d = \<lparr>msg_id = i, defaultMessage = d, msg_values = []\<rparr>"

definition minLengthMessage :: message where
  "minLengthMessage =
     \<lparr>msg_id = Translated ''minLength'',
      defaultMessage = ''Password must be at least 8 characters'',
      msg_values = [(''min'', 8)]\<rparr>"

definition lowercaseMessage :: message where
  "lowercaseMessage =
     msg (Literal ''components.Input.error.contain.lowercase'')
         ''Password must contain at least 1 lowercase letter''"

definition uppercaseMessage :: message where
  "uppercaseMessage =
     msg (Literal ''components.Input.error.contain.uppercase'')
         ''Password must contain at least 1 uppercase letter''"

definition numberMessage :: message where
  "numberMessage =
     msg (Literal ''components.Input.error.contain.number'')
         ''Password must contain at least 1 number''"

definition passwordRequiredMessage :: message where
  "passwordRequiredMessage = msg (Translated ''required'') ''Password is required''"

definition noMatchMessage :: message where
  "noMatchMessage =
     msg (Literal ''components.Input.error.password.noMatch'') ''Passwords must match''"

text \<open>
  The \<open>password\<close> and \<open>confirmPassword\<close> rules are written out three times in the
  source (user schema, admin schema, reset schema), the same each time.
\<close>

definition passwordSchema :: schema where
  "passwordSchema =
     chain [yup_min 8 minLengthMessage,
            matches lower_az lowercaseMessage,
            matches upper_AZ uppercaseMessage,
            matches digit numberMessage,
            required passwordRequiredMessage]"

definition confirmPasswordSchema :: schema where
  "confirmPasswordSchema =
     chain [required (msg (Translated ''required'') ''Confirm password is required''),
            oneOfRef ''password'' noMatchMessage]"

definition firstnameSchema :: schema where
  "firstnameSchema =
     chain [yup_trim, required (msg (Translated ''required'') ''Firstname is required'')]"

definition REGISTER_USER_SCHEMA :: "(string \<times> schema) list" where
  "REGISTER_USER_SCHEMA =
     [(''firstname'', firstnameSchema),
      (''lastname'', chain [yup_nullable]),
      (''password'', passwordSchema),
      (''confirmPassword'', confirmPasswordSchema),
      (''registrationToken'',
         chain [required (msg (Translated ''required'') ''Registration token is required'')])]"

definition REGISTER_ADMIN_SCHEMA ::
  "(jsstring \<Rightarrow> bool) \<Rightarrow> (jsstring \<Rightarrow> jsstring) \<Rightarrow> (string \<times> schema) list"
where
  "REGISTER_ADMIN_SCHEMA isEmail toLowerCase =
     [(''firstname'', firstnameSchema),
      (''lastname'', chain [yup_nullable]),
      (''password'', passwordSchema),
      (''confirmPassword'', confirmPasswordSchema),
      (''email'',
         chain [yup_email isEmail (msg (Translated ''email'') ''Not a valid email''),
                yup_strict,
                yup_lowercase toLowerCase
                  (msg (Translated ''lowercase'') ''Email must be lowercase''),
                required (msg (Translated ''required'') ''Email is required'')])]"

definition RESET_PASSWORD_SCHEMA :: "(string \<times> schema) list" where
  "RESET_PASSWORD_SCHEMA =
     [(''password'', passwordSchema),
      (''confirmPassword'', confirmPasswordSchema)]"

section \<open>Collaborators and effects\<close>

text \<open>
  A mutation or query of the auth service answers \<open>{data}\<close> or \<open>{error}\<close>. Of the
  payload only what the components read is kept: the token and the user's roles.
\<close>

record api_error =
  err_name :: "string option"
  err_message :: "string option"

record role =
  code :: jsstring

record admin_user =
  roles :: "role list option"

record auth_data =
  token :: jsstring
  user :: admin_user

record RegistrationInfo =
  info_firstname :: "jsstring option"
  info_lastname :: "jsstring option"
  info_email :: "jsstring option"

datatype 'a response = Data 'a | Error api_error

text \<open>
  What the components take from their surroundings: the formatting helpers, the type
  guard \<open>isBaseQueryError\<close>, \<open>encodeURIComponent\<close>, the library's e-mail pattern and
  \<open>toLowerCase\<close>, and the answers of the auth service.
\<close>

record env =
  formatMessage :: "message \<Rightarrow> string"
  formatAPIError :: "api_error \<Rightarrow> string"
  formatValidationErrors :: "api_error \<Rightarrow> (string \<times> string) list"
  isBaseQueryError :: "api_error \<Rightarrow> bool"
  encodeURIComponent :: "string \<Rightarrow> string"
  isEmail :: "jsstring \<Rightarrow> bool"
  toLowerCase :: "jsstring \<Rightarrow> jsstring"
  registerAdmin :: "jsobject \<Rightarrow> auth_data response"
  registerUser :: "jsobject \<Rightarrow> auth_data response"
  resetPassword :: "jsobject \<Rightarrow> auth_data response"
  getRegistrationInfo :: "jsstring \<Rightarrow> RegistrationInfo response"

text \<open>
  Everything a handler does to the outside, in the order it does it. A field-error
  state \<open>Record<string, string>\<close> is an association list.
\<close>

datatype location = ToPath string | ToLocation string string

datatype effect =
    CallRegisterAdmin jsobject
  | CallRegisterUser jsobject
  | CallResetPassword jsobject
  | SetToken jsstring
  | AuthSet bool string bool
  | SetSkipped bool
  | TrackUsage string "nat option"
  | EnableNpsSurvey
  | NavigateTo location
  | SetErrors "(string \<times> string) list"
  | SetValidationErrors "ValidationError list"
  | SetApiError string
  | SetSubmitCount nat
  | ToggleNotification string string

datatype element = Navigate string | RegisterForm bool | ResetPasswordForm

text \<open>A boolean or \<open>undefined\<close> inside a template literal.\<close>

definition template :: "bool option \<Rightarrow> string" where
  "template b =
     (case b of None \<Rightarrow> ''undefined'' | Some True \<Rightarrow> ''true'' | Some False \<Rightarrow> ''false'')"

section \<open>The Register component\<close>

text \<open>
  The registration-info query. It is skipped when the \<open>registrationToken\<close> query
  parameter is missing or empty (\<open>None\<close>: neither data nor error); otherwise it holds
  the answer of the auth service.
\<close>

definition useGetRegistrationInfoQuery ::
  "env \<Rightarrow> jsstring option \<Rightarrow> RegistrationInfo response option"
where
  "useGetRegistrationInfoQuery env queryToken =
     (case queryToken of
        None \<Rightarrow> None
      | Some t \<Rightarrow> if \<not> truthy (JString t) then None else Some (getRegistrationInfo env t))"

text \<open>
  The effect run after a render: when the query has an error, warn and leave for
  \<open>/auth/oops\<close>.
\<close>

definition registrationInfoEffect :: "env \<Rightarrow> jsstring option \<Rightarrow> effect list" where
  "registrationInfoEffect env queryToken =
     (case useGetRegistrationInfoQuery env queryToken of
        Some (Error e) \<Rightarrow>
          (let message =
                 (if isBaseQueryError env e then formatAPIError env e
                  else (case err_message e of None \<Rightarrow> [] | Some m \<Rightarrow> m))
           in [ToggleNotification ''warning'' message,
               NavigateTo (ToPath (''/auth/oops?info='' @ encodeURIComponent env message))])
      | _ \<Rightarrow> [])"

text \<open>
  The initial values of the form: \<open>userInfo?.x || ''\<close> for the three fields the query
  may prefill, and \<open>registrationToken || undefined\<close>. The form has no input for the
  token, so a submission carries the token of the query string.
\<close>

definition orEmpty :: "jsstring option \<Rightarrow> jsstring" where
  "orEmpty v = (case v of None \<Rightarrow> [] | Some s \<Rightarrow> s)"

definition initialValues :: "env \<Rightarrow> jsstring option \<Rightarrow> RegisterFormValues" where
  "initialValues env queryToken =
     (let userInfo =
            (case useGetRegistrationInfoQuery env queryToken of
               Some (Data d) \<Rightarrow> Some d
             | _ \<Rightarrow> None)
      in \<lparr>firstname = orEmpty (Option.bind userInfo info_firstname),
          lastname = orEmpty (Option.bind userInfo info_lastname),
          email = orEmpty (Option.bind userInfo info_email),
          password = [],
          confirmPassword = [],
          registrationToken =
            (case queryToken of
               None \<Rightarrow> None
             | Some t \<Rightarrow> if truthy (JString t) then Some t else None),
          news = False\<rparr>)"

text \<open>What both handlers do with an \<open>{error}\<close> answer.\<close>

definition handleError :: "env \<Rightarrow> api_error \<Rightarrow> effect list" where
  "handleError env e =
     (if isBaseQueryError env e
      then TrackUsage ''didNotCreateFirstAdmin'' None #
           (if err_name e = Some ''ValidationError''
            then [SetErrors (formatValidationErrors env e)]
            else [SetApiError (formatAPIError env e)])
      else [])"

definition handleRegisterAdmin :: "env \<Rightarrow> jsobject \<Rightarrow> effect list" where
  "handleRegisterAdmin env arg =
     (let news = getProp arg ''news''; body = omit arg [''news'']
      in CallRegisterAdmin body #
         (case registerAdmin env body of
            Data d \<Rightarrow>
              SetToken (token d) #
              (case roles (user d) of
                 None \<Rightarrow> []
               | Some rs \<Rightarrow>
                   if find (\<lambda>r. code r = str ''strapi-super-admin'') rs \<noteq> None
                   then [AuthSet False ''GUIDED_TOUR_SKIPPED'' True,
                         SetSkipped False,
                         TrackUsage ''didLaunchGuidedtour'' None]
                   else []) @
              (if truthy news
               then [EnableNpsSurvey,
                     NavigateTo (ToLocation ''/usecase'' (''?hasAdmin='' @ template (Some True)))]
               else [NavigateTo (ToPath ''/'')])
          | Error e \<Rightarrow> handleError env e))"

definition handleRegisterUser :: "env \<Rightarrow> bool option \<Rightarrow> jsobject \<Rightarrow> effect list" where
  "handleRegisterUser env hasAdmin arg =
     (let news = getProp arg ''news''; body = omit arg [''news'']
      in CallRegisterUser body #
         (case registerUser env body of
            Data d \<Rightarrow>
              SetToken (token d) #
              (if truthy news
               then [EnableNpsSurvey,
                     NavigateTo (ToLocation ''/usecase'' (''?hasAdmin='' @ template hasAdmin))]
               else [NavigateTo (ToPath ''/'')])
          | Error e \<Rightarrow> handleError env e))"

text \<open>
  The render: the guard on the route parameter (\<open>None\<close> is no match of
  \<open>/auth/:authType\<close>), then the form, which carries \<open>isAdminRegistration\<close>.
\<close>

definition Register :: "string option \<Rightarrow> element" where
  "Register match =
     (case match of
        None \<Rightarrow> Navigate ''/''
      | Some authType \<Rightarrow>
          if authType \<noteq> ''register'' \<and> authType \<noteq> ''register-admin''
          then Navigate ''/''
          else RegisterForm (authType = ''register-admin''))"

definition selectSchema :: "env \<Rightarrow> bool \<Rightarrow> (string \<times> schema) list" where
  "selectSchema env isAdminRegistration =
     (if isAdminRegistration
      then REGISTER_ADMIN_SCHEMA (isEmail env) (toLowerCase env)
      else REGISTER_USER_SCHEMA)"

text \<open>
  The reducer of the \<open>catch\<close> block over \<open>err.inner\<close>: an error with a path and an
  object message writes \<open>acc[path]\<close>, whatever was there.
\<close>

definition errorEntry :: "env \<Rightarrow> (string \<times> string) list \<Rightarrow> ValidationError \<Rightarrow> (string \<times> string) list" where
  "errorEntry env acc e =
     (case (path e, message e) of
        (Some p, MessageObject m) \<Rightarrow>
          if p \<noteq> [] then AList.update p (formatMessage env m) acc else acc
      | _ \<Rightarrow> acc)"

definition onSubmit :: "env \<Rightarrow> bool option \<Rightarrow> bool \<Rightarrow> nat \<Rightarrow> RegisterFormValues \<Rightarrow> effect list" where
  "onSubmit env hasAdmin isAdminRegistration submitCount data =
     (let normalizedData = normalizeData data;
          inner = validate (selectSchema env isAdminRegistration) normalizedData
      in if inner = []
         then (if 0 < submitCount \<and> isAdminRegistration
               then [TrackUsage ''didSubmitWithErrorsFirstAdmin'' (Some submitCount)]
               else []) @
              (if truthy (getProp normalizedData ''registrationToken'')
               then handleRegisterUser env hasAdmin
                      [(''userInfo'',
                          JObject (omit normalizedData
                                     [''registrationToken'', ''confirmPassword'', ''email'', ''news''])),
                       (''registrationToken'', getProp normalizedData ''registrationToken''),
                       (''news'', getProp normalizedData ''news'')]
               else handleRegisterAdmin env
                      (omit normalizedData [''registrationToken'', ''confirmPassword'']))
         else [SetErrors (foldl (errorEntry env) [] inner),
               SetSubmitCount (submitCount + 1)])"

text \<open>
  Submitting the registration form mounted on a route: nothing can be submitted when
  the guard has redirected.
\<close>

definition submitRegister ::
  "env \<Rightarrow> bool option \<Rightarrow> string option \<Rightarrow> nat \<Rightarrow> RegisterFormValues \<Rightarrow> effect list"
where
  "submitRegister env hasAdmin match submitCount data =
     (case Register match of
        RegisterForm isAdminRegistration \<Rightarrow>
          onSubmit env hasAdmin isAdminRegistration submitCount data
      | _ \<Rightarrow> [])"

section \<open>The ResetPassword component\<close>

definition handleSubmit :: "env \<Rightarrow> jsobject \<Rightarrow> effect list" where
  "handleSubmit env body =
     CallResetPassword body #
     (case resetPassword env body of
        Data d \<Rightarrow> [SetToken (token d), NavigateTo (ToPath ''/'')]
      | Error e \<Rightarrow> [])"

definition ResetPassword :: "jsstring option \<Rightarrow> element" where
  "ResetPassword queryCode =
     (if \<not> truthy (optString queryCode) then Navigate ''/auth/login'' else ResetPasswordForm)"

definition resetOnSubmit :: "env \<Rightarrow> jsstring option \<Rightarrow> jsobject \<Rightarrow> effect list" where
  "resetOnSubmit env queryCode values =
     handleSubmit env
       [(''password'', getProp values ''password''),
        (''resetPasswordToken'', optString queryCode)]"

definition resetFormValues :: "jsstring \<Rightarrow> jsstring \<Rightarrow> jsobject" where
  "resetFormValues pw confirm =
     [(''password'', JString pw), (''confirmPassword'', JString confirm)]"

text \<open>
  Modelled from the spec: the \<open>Form\<close> component (\<open>components/Form\<close>) that receives
  \<open>validationSchema\<close> and \<open>onSubmit\<close> is not among the sources. Section 4.2 of the
  specification: on a submit trigger the values are first validated against the schema;
  if they are invalid the field errors are populated and nothing else happens; if they
  are valid the submit handler runs. How the field errors are laid out is not modelled:
  the effect carries the validation errors as the schema reports them.
\<close>

definition Form_submit ::
  "(string \<times> schema) list \<Rightarrow> (jsobject \<Rightarrow> effect list) \<Rightarrow> jsobject \<Rightarrow> effect list"
where
  "Form_submit validationSchema handler values =
     (let inner = validate validationSchema values
      in if inner = [] then handler values else [SetValidationErrors inner])"

definition submitResetPassword :: "env \<Rightarrow> jsstring option \<Rightarrow> jsobject \<Rightarrow> effect list" where
  "submitResetPassword env queryCode values =
     (case ResetPassword queryCode of
        ResetPasswordForm \<Rightarrow> Form_submit RESET_PASSWORD_SCHEMA (resetOnSubmit env queryCode) values
      | _ \<Rightarrow> [])"

text \<open>The calls to the auth service among the effects.\<close>

fun isNetworkCall :: "effect \<Rightarrow> bool" where
  "isNetworkCall (CallRegisterAdmin b) = True"
| "isNetworkCall (CallRegisterUser b) = True"
| "isNetworkCall (CallResetPassword b) = True"
| "isNetworkCall e = False"

fun isNavigation :: "effect \<Rightarrow> bool" where
  "isNavigation (NavigateTo l) = True"
| "isNavigation e = False"

section \<open>A concrete environment\<close>

text \<open>
  An environment to run the model on concrete inputs. No translation is loaded, so
  \<open>formatMessage\<close> gives the default message; an API error is shown by its message;
  an error with a name is a base-query error; the e-mail pattern is reduced to "an at
  sign and no white space" and \<open>toLowerCase\<close> to the ASCII letters; the auth service
  accepts every request and answers with a super admin, and knows the e-mail address of
  every registration token.
\<close>

definition sampleData :: auth_data where
  "sampleData =
     \<lparr>token = str ''jwt'',
      user = \<lparr>roles = Some [\<lparr>code = str ''strapi-super-admin''\<rparr>]\<rparr>\<rparr>"

definition sampleEnv :: env where
  "sampleEnv =
     \<lparr>formatMessage = defaultMessage,
      formatAPIError = (\<lambda>e. case err_message e of None \<Rightarrow> ''error'' | Some m \<Rightarrow> m),
      formatValidationErrors = (\<lambda>e. [(''email'', ''Email already taken'')]),
      isBaseQueryError = (\<lambda>e. err_name e \<noteq> None),
      encodeURIComponent = (\<lambda>s. s),
      isEmail = (\<lambda>s. list_ex (\<lambda>c. c = 0x40) s \<and> \<not> list_ex isWhiteSpace s),
      toLowerCase = map (\<lambda>c. if upper_AZ c then c + 0x20 else c),
      registerAdmin = (\<lambda>body. Data sampleData),
      registerUser = (\<lambda>body. Data sampleData),
      resetPassword = (\<lambda>body. Data sampleData),
      getRegistrationInfo =
        (\<lambda>t. Data \<lparr>info_firstname = None, info_lastname = None,
                     info_email = Some (str ''ann@example.com'')\<rparr>)\<rparr>"

section \<open>Facts about the model\<close>

subsection \<open>trim, normalizeData and the schemas\<close>

lemma dropWhile_rev_trimmed:
  "dropWhile P (rev (dropWhile P (rev (dropWhile P s)))) = rev (dropWhile P (rev (dropWhile P s)))"
proof (cases "dropWhile P (rev (dropWhile P s)) = []")
  case True
  show ?thesis unfolding True by simp
next
  case False
  define t where "t = dropWhile P s"
  define u where "u = dropWhile P (rev t)"
  from False have u: "u \<noteq> []" by (simp add: u_def t_def)
  then have t: "t \<noteq> []" by (auto simp: u_def)
  from u obtain x where "x \<in> set (rev t)" "\<not> P x"
    unfolding u_def by (auto simp: dropWhile_eq_Nil_conv)
  then have "last u = last (rev t)"
    unfolding u_def by (rule dropWhile_last)
  also have "\<dots> = hd t" using t by (simp add: last_rev)
  finally have "last u = hd t" .
  moreover have "\<not> P (hd t)" using t unfolding t_def by (rule hd_dropWhile)
  ultimately have "\<not> P (hd (rev u))" using u by (simp add: hd_rev)
  then have "dropWhile P (rev u) = rev u" using u by (cases "rev u") auto
  then show ?thesis by (simp add: u_def t_def)
qed

lemma trim_idem: "trim (trim s) = trim s"
  unfolding trim_def by (simp add: dropWhile_rev_trimmed dropWhile_idem)

lemma normalizeData_eq:
  "normalizeData d =
     [(''firstname'', JString (trim (firstname d))),
      (''lastname'', if lastname d \<noteq> [] then JString (lastname d) else JUndefined),
      (''email'', JString (trim (email d))),
      (''password'', JString (password d)),
      (''confirmPassword'', JString (confirmPassword d)),
      (''registrationToken'', optString (map_option trim (registrationToken d))),
      (''news'', JBool (news d))]"
  by (cases "registrationToken d")
     (simp_all add: normalizeData_def entries_def assign_def optString_def)

lemma passwordSchema_eq:
  "passwordSchema =
     \<lparr>transforms = [], strict = False, nullable = False, whitelistError = None,
      tests = [(minLength 8, MessageObject minLengthMessage),
               (searchClass lower_az, MessageObject lowercaseMessage),
               (searchClass upper_AZ, MessageObject uppercaseMessage),
               (searchClass digit, MessageObject numberMessage),
               (isPresent, MessageObject passwordRequiredMessage)]\<rparr>"
  by (simp add: passwordSchema_def chain_def yup_string_def yup_min_def matches_def
        required_def addTest_def)

lemma confirmPasswordSchema_eq:
  "confirmPasswordSchema =
     \<lparr>transforms = [], strict = False, nullable = False,
      whitelistError = Some (inWhitelistRef ''password'', MessageObject noMatchMessage),
      tests = [(isPresent,
                MessageObject (msg (Translated ''required'') ''Confirm password is required''))]\<rparr>"
  by (simp add: confirmPasswordSchema_def chain_def yup_string_def oneOfRef_def
        required_def addTest_def)

lemma firstnameSchema_eq:
  "firstnameSchema =
     \<lparr>transforms = [trim], strict = False, nullable = False, whitelistError = None,
      tests = [(isTrimmed, MessageString ''must be a trimmed string''),
               (isPresent, MessageObject (msg (Translated ''required'') ''Firstname is required''))]\<rparr>"
  by (simp add: firstnameSchema_def chain_def yup_string_def yup_trim_def
        required_def addTest_def addTransform_def)

lemma failing_Nil: "failing [] parent key v = []"
  by (simp add: failing_def)

lemma failing_Cons:
  "failing ((t, m) # ts) parent key v =
     (if t parent v then [] else [\<lparr>path = Some key, message = m\<rparr>]) @
     failing ts parent key v"
  by (simp add: failing_def)

lemma castObject_user: "castObject REGISTER_USER_SCHEMA (normalizeData d) = normalizeData d"
  by (simp add: normalizeData_eq castObject_def REGISTER_USER_SCHEMA_def castField_def
      firstnameSchema_eq passwordSchema_eq confirmPasswordSchema_eq chain_def yup_string_def
      yup_nullable_def required_def addTest_def trim_idem optString_def split: option.splits)


lemma validateField_password:
  "getProp parent ''password'' = JString pw \<Longrightarrow>
   validateField parent (''password'', passwordSchema) =
     (if 8 \<le> length pw then [] else [\<lparr>path = Some ''password'', message = MessageObject minLengthMessage\<rparr>]) @
     (if list_ex lower_az pw then [] else [\<lparr>path = Some ''password'', message = MessageObject lowercaseMessage\<rparr>]) @
     (if list_ex upper_AZ pw then [] else [\<lparr>path = Some ''password'', message = MessageObject uppercaseMessage\<rparr>]) @
     (if list_ex digit pw then [] else [\<lparr>path = Some ''password'', message = MessageObject numberMessage\<rparr>]) @
     (if pw \<noteq> [] then [] else [\<lparr>path = Some ''password'', message = MessageObject passwordRequiredMessage\<rparr>])"
  by (simp add: validateField_def passwordSchema_eq stringField_def failing_Cons failing_Nil
        minLength_def searchClass_def isPresent_def Let_def split del: if_split)

lemma validateField_confirmPassword:
  "getProp parent ''password'' = JString pw \<Longrightarrow>
   getProp parent ''confirmPassword'' = JString c \<Longrightarrow>
   validateField parent (''confirmPassword'', confirmPasswordSchema) =
     (if pw = c
      then (if c \<noteq> [] then []
            else [\<lparr>path = Some ''confirmPassword'',
                   message = MessageObject (msg (Translated ''required'') ''Confirm password is required'')\<rparr>])
      else [\<lparr>path = Some ''confirmPassword'', message = MessageObject noMatchMessage\<rparr>])"
  by (simp add: validateField_def confirmPasswordSchema_eq stringField_def failing_Cons
        failing_Nil inWhitelistRef_def isPresent_def Let_def)

lemma validateField_firstname:
  "getProp parent ''firstname'' = JString (trim f) \<Longrightarrow>
   validateField parent (''firstname'', firstnameSchema) =
     (if trim f \<noteq> [] then []
      else [\<lparr>path = Some ''firstname'',
             message = MessageObject (msg (Translated ''required'') ''Firstname is required'')\<rparr>])"
  by (simp add: validateField_def firstnameSchema_eq stringField_def failing_Cons
        failing_Nil isTrimmed_def isPresent_def trim_idem Let_def)

lemma getProp_normalizeData:
  "getProp (normalizeData d) ''firstname'' = JString (trim (firstname d))"
  "getProp (normalizeData d) ''lastname'' = (if lastname d \<noteq> [] then JString (lastname d) else JUndefined)"
  "getProp (normalizeData d) ''email'' = JString (trim (email d))"
  "getProp (normalizeData d) ''password'' = JString (password d)"
  "getProp (normalizeData d) ''confirmPassword'' = JString (confirmPassword d)"
  "getProp (normalizeData d) ''registrationToken'' = optString (map_option trim (registrationToken d))"
  "getProp (normalizeData d) ''news'' = JBool (news d)"
  by (simp_all add: normalizeData_eq getProp_def)

lemma emailSchema_eq:
  "chain [yup_email isE m1, yup_strict, yup_lowercase lc m2, required m3] =
     \<lparr>transforms = [lc], strict = True, nullable = False, whitelistError = None,
      tests = [(emailTest isE, MessageObject m1),
               (lowercaseTest lc, MessageObject m2),
               (isPresent, MessageObject m3)]\<rparr>"
  by (simp add: chain_def yup_string_def yup_email_def yup_strict_def yup_lowercase_def
        required_def addTest_def addTransform_def)

lemma nullableSchema_eq:
  "chain [yup_nullable] =
     \<lparr>transforms = [], strict = False, nullable = True, whitelistError = None, tests = []\<rparr>"
  by (simp add: chain_def yup_string_def yup_nullable_def)

lemma castObject_admin:
  "castObject (REGISTER_ADMIN_SCHEMA isE lc) (normalizeData d) = normalizeData d"
  by (simp add: normalizeData_eq castObject_def REGISTER_ADMIN_SCHEMA_def castField_def
      firstnameSchema_eq passwordSchema_eq confirmPasswordSchema_eq emailSchema_eq
      nullableSchema_eq trim_idem optString_def split: option.splits)

lemma validateField_email:
  "getProp parent ''email'' = JString e \<Longrightarrow>
   validateField parent
     (''email'', chain [yup_email isE m1, yup_strict, yup_lowercase lc m2, required m3]) =
     (if e = [] \<or> isE e then [] else [\<lparr>path = Some ''email'', message = MessageObject m1\<rparr>]) @
     (if e = lc e then [] else [\<lparr>path = Some ''email'', message = MessageObject m2\<rparr>]) @
     (if e \<noteq> [] then [] else [\<lparr>path = Some ''email'', message = MessageObject m3\<rparr>])"
  by (simp add: validateField_def emailSchema_eq stringField_def failing_Cons failing_Nil
        emailTest_def lowercaseTest_def isPresent_def Let_def split del: if_split)

lemma validateField_lastname: "validateField parent (''lastname'', chain [yup_nullable]) = []"
  by (simp add: validateField_def chain_def yup_string_def yup_nullable_def failing_Nil Let_def)

lemma validateField_token:
  "getProp parent ''registrationToken'' = optString t \<Longrightarrow>
   validateField parent (''registrationToken'', chain [required m]) =
     (if (case t of None \<Rightarrow> False | Some x \<Rightarrow> x \<noteq> []) then []
      else [\<lparr>path = Some ''registrationToken'', message = MessageObject m\<rparr>])"
  by (simp add: validateField_def chain_def yup_string_def required_def addTest_def
        stringField_def failing_Cons failing_Nil isPresent_def optString_def Let_def
      split: option.splits)

lemma validate_admin:
  "validate (REGISTER_ADMIN_SCHEMA isE lc) (normalizeData d) =
     validateField (normalizeData d) (''firstname'', firstnameSchema) @
     validateField (normalizeData d) (''password'', passwordSchema) @
     validateField (normalizeData d) (''confirmPassword'', confirmPasswordSchema) @
     validateField (normalizeData d)
       (''email'',
        chain [yup_email isE (msg (Translated ''email'') ''Not a valid email''),
               yup_strict,
               yup_lowercase lc (msg (Translated ''lowercase'') ''Email must be lowercase''),
               required (msg (Translated ''required'') ''Email is required'')])"
  unfolding validate_def Let_def castObject_admin
  by (simp add: REGISTER_ADMIN_SCHEMA_def validateField_lastname)

lemma validate_reset:
  "validate RESET_PASSWORD_SCHEMA (resetFormValues pw c) =
     validateField (resetFormValues pw c) (''password'', passwordSchema) @
     validateField (resetFormValues pw c) (''confirmPassword'', confirmPasswordSchema)"
  by (simp add: validate_def RESET_PASSWORD_SCHEMA_def castObject_def resetFormValues_def
        castField_def passwordSchema_eq confirmPasswordSchema_eq Let_def)

lemma getProp_resetFormValues:
  "getProp (resetFormValues pw c) ''password'' = JString pw"
  "getProp (resetFormValues pw c) ''confirmPassword'' = JString c"
  by (simp_all add: resetFormValues_def getProp_def)

subsection \<open>The field-error state built from the validation errors\<close>

lemma path_failing: "e \<in> set (failing ts parent key v) \<Longrightarrow> path e = Some key"
  by (auto simp: failing_def)

lemma path_validateField: "e \<in> set (validateField parent (key, s)) \<Longrightarrow> path e = Some key"
  by (auto simp: validateField_def Let_def path_failing split: if_splits)

lemma foldl_errorEntry_skip:
  "\<forall>e \<in> set es. path e \<noteq> Some p \<Longrightarrow>
   map_of (foldl (errorEntry env) acc es) p = map_of acc p"
proof (induction es arbitrary: acc)
  case Nil
  then show ?case by simp
next
  case (Cons e es)
  have "map_of (errorEntry env acc e) p = map_of acc p"
    using Cons.prems
    by (cases "path e"; cases "message e") (auto simp: errorEntry_def update_conv')
  with Cons show ?case by simp
qed

lemma foldl_errorEntry_last:
  assumes "es \<noteq> []" "\<forall>e \<in> set es. path e = Some p" "p \<noteq> []"
    and "message (last es) = MessageObject m"
  shows "map_of (foldl (errorEntry env) acc es) p = Some (formatMessage env m)"
  using assms
proof (induction es arbitrary: acc rule: rev_induct)
  case Nil
  then show ?case by simp
next
  case (snoc e es)
  then show ?case by (simp add: errorEntry_def update_conv')
qed

lemma keys_errorEntry:
  "path e = Some p \<Longrightarrow> p \<noteq> [] \<Longrightarrow> message e = MessageObject m \<Longrightarrow>
   fst ` set (errorEntry env acc e) = insert p (fst ` set acc)"
  by (simp add: errorEntry_def dom_update)

lemma distinct_errorEntry:
  "distinct (map fst acc) \<Longrightarrow> distinct (map fst (errorEntry env acc e))"
  by (cases "path e"; cases "message e") (simp_all add: errorEntry_def distinct_update)

lemma distinct_foldl_errorEntry:
  "distinct (map fst acc) \<Longrightarrow> distinct (map fst (foldl (errorEntry env) acc es))"
  by (induction es arbitrary: acc) (simp_all add: distinct_errorEntry)

lemma filter_key_distinct:
  "distinct (map fst xs) \<Longrightarrow> map_of xs k = Some v \<Longrightarrow>
   filter (\<lambda>kv. fst kv = k) xs = [(k, v)]"
proof (induction xs)
  case Nil
  then show ?case by simp
next
  case (Cons x xs)
  show ?case
  proof (cases "fst x = k")
    case True
    with Cons.prems have "k \<notin> fst ` set xs" by auto
    then have "filter (\<lambda>kv. fst kv = k) xs = []"
      by (auto simp: filter_empty_conv)
    moreover from True Cons.prems(2) have "x = (k, v)" by (cases x) simp
    ultimately show ?thesis by simp
  next
    case False
    with Cons show ?thesis by (cases x) auto
  qed
qed

lemma keys_foldl_errorEntry:
  "\<forall>e \<in> set es. \<exists>p m. path e = Some p \<and> p \<noteq> [] \<and> message e = MessageObject m \<Longrightarrow>
   fst ` set (foldl (errorEntry env) acc es) =
     fst ` set acc \<union> {p. \<exists>e \<in> set es. path e = Some p}"
proof (induction es arbitrary: acc)
  case Nil
  then show ?case by simp
next
  case (Cons e es)
  from Cons.prems obtain p m where e: "path e = Some p" "p \<noteq> []" "message e = MessageObject m"
    by auto
  have "fst ` set (foldl (errorEntry env) (errorEntry env acc e) es) =
          fst ` set (errorEntry env acc e) \<union> {p. \<exists>e \<in> set es. path e = Some p}"
    using Cons.prems by (intro Cons.IH) simp
  then show ?case using e by (auto simp: keys_errorEntry [OF e])
qed

lemma wellFormed_password:
  "e \<in> set (validateField (normalizeData d) (''password'', passwordSchema)) \<Longrightarrow>
   \<exists>m. message e = MessageObject m"
  by (auto simp: validateField_password [OF getProp_normalizeData(4)] split: if_splits)

lemma wellFormed_confirmPassword:
  "e \<in> set (validateField (normalizeData d) (''confirmPassword'', confirmPasswordSchema)) \<Longrightarrow>
   \<exists>m. message e = MessageObject m"
  by (auto simp: validateField_confirmPassword [OF getProp_normalizeData(4) getProp_normalizeData(5)]
      split: if_splits)

lemma wellFormed_firstname:
  "e \<in> set (validateField (normalizeData d) (''firstname'', firstnameSchema)) \<Longrightarrow>
   \<exists>m. message e = MessageObject m"
  by (auto simp: validateField_firstname [OF getProp_normalizeData(1)] split: if_splits)

lemma wellFormed_email:
  "e \<in> set (validateField (normalizeData d)
      (''email'', chain [yup_email isE m1, yup_strict, yup_lowercase lc m2, required m3])) \<Longrightarrow>
   \<exists>m. message e = MessageObject m"
  by (auto simp: validateField_email [OF getProp_normalizeData(3)] split: if_splits)

lemma wellFormed_token:
  "e \<in> set (validateField (normalizeData d) (''registrationToken'', chain [required m0])) \<Longrightarrow>
   \<exists>m. message e = MessageObject m"
  by (auto simp: validateField_token [OF getProp_normalizeData(6)] split: if_splits)

lemma validate_user:
  "validate REGISTER_USER_SCHEMA (normalizeData d) =
     validateField (normalizeData d) (''firstname'', firstnameSchema) @
     validateField (normalizeData d) (''password'', passwordSchema) @
     validateField (normalizeData d) (''confirmPassword'', confirmPasswordSchema) @
     validateField (normalizeData d)
       (''registrationToken'',
        chain [required (msg (Translated ''required'') ''Registration token is required'')])"
  unfolding validate_def Let_def castObject_user
  by (simp add: REGISTER_USER_SCHEMA_def validateField_lastname)

lemma wellFormed_validate:
  assumes "e \<in> set (validate (selectSchema env a) (normalizeData d))"
  shows "\<exists>p m. path e = Some p \<and> p \<noteq> [] \<and> message e = MessageObject m"
proof (cases a)
  case True
  with assms consider
      "e \<in> set (validateField (normalizeData d) (''firstname'', firstnameSchema))"
    | "e \<in> set (validateField (normalizeData d) (''password'', passwordSchema))"
    | "e \<in> set (validateField (normalizeData d) (''confirmPassword'', confirmPasswordSchema))"
    | "e \<in> set (validateField (normalizeData d)
        (''email'',
         chain [yup_email (isEmail env) (msg (Translated ''email'') ''Not a valid email''),
                yup_strict,
                yup_lowercase (toLowerCase env) (msg (Translated ''lowercase'') ''Email must be lowercase''),
                required (msg (Translated ''required'') ''Email is required'')]))"
    by (auto simp: selectSchema_def validate_admin)
  then show ?thesis
  proof cases
    case 1
    from path_validateField [OF 1] wellFormed_firstname [OF 1] show ?thesis by auto
  next
    case 2
    from path_validateField [OF 2] wellFormed_password [OF 2] show ?thesis by auto
  next
    case 3
    from path_validateField [OF 3] wellFormed_confirmPassword [OF 3] show ?thesis by auto
  next
    case 4
    from path_validateField [OF 4] wellFormed_email [OF 4] show ?thesis by auto
  qed
next
  case False
  with assms consider
      "e \<in> set (validateField (normalizeData d) (''firstname'', firstnameSchema))"
    | "e \<in> set (validateField (normalizeData d) (''password'', passwordSchema))"
    | "e \<in> set (validateField (normalizeData d) (''confirmPassword'', confirmPasswordSchema))"
    | "e \<in> set (validateField (normalizeData d)
        (''registrationToken'',
         chain [required (msg (Translated ''required'') ''Registration token is required'')]))"
    by (auto simp: selectSchema_def validate_user)
  then show ?thesis
  proof cases
    case 1
    from path_validateField [OF 1] wellFormed_firstname [OF 1] show ?thesis by auto
  next
    case 2
    from path_validateField [OF 2] wellFormed_password [OF 2] show ?thesis by auto
  next
    case 3
    from path_validateField [OF 3] wellFormed_confirmPassword [OF 3] show ?thesis by auto
  next
    case 4
    from path_validateField [OF 4] wellFormed_token [OF 4] show ?thesis by auto
  qed
qed

lemma onSubmit_invalid:
  "validate (selectSchema env a) (normalizeData d) \<noteq> [] \<Longrightarrow>
   onSubmit env h a n d =
     [SetErrors (foldl (errorEntry env) [] (validate (selectSchema env a) (normalizeData d))),
      SetSubmitCount (n + 1)]"
  by (simp add: onSubmit_def Let_def)

subsection \<open>The handlers\<close>

lemma handleError_validation:
  "isBaseQueryError env e \<Longrightarrow> err_name e = Some ''ValidationError'' \<Longrightarrow>
   handleError env e =
     [TrackUsage ''didNotCreateFirstAdmin'' None, SetErrors (formatValidationErrors env e)]"
  by (simp add: handleError_def)

lemma validate_reset_valid:
  "validate RESET_PASSWORD_SCHEMA (resetFormValues (str ''Abcdef12'') (str ''Abcdef12'')) = []"
  by (simp add: validate_reset
        validateField_password [OF getProp_resetFormValues(1)]
        validateField_confirmPassword [OF getProp_resetFormValues(1) getProp_resetFormValues(2)]
        str_def lower_az_def upper_AZ_def digit_def)

subsection \<open>Which field reports what, and which call is made\<close>

lemma foldl_errorEntry_field:
  assumes "inner = pre @ own @ post"
    and "\<forall>e \<in> set post. path e \<noteq> Some p"
    and "own \<noteq> []" and "\<forall>e \<in> set own. path e = Some p" and "p \<noteq> []"
    and "message (last own) = MessageObject m"
  shows "map_of (foldl (errorEntry env) [] inner) p = Some (formatMessage env m)"
proof -
  have "map_of (foldl (errorEntry env) [] inner) p =
        map_of (foldl (errorEntry env) (foldl (errorEntry env) (foldl (errorEntry env) [] pre) own) post) p"
    by (simp add: assms(1))
  also have "\<dots> = map_of (foldl (errorEntry env) (foldl (errorEntry env) [] pre) own) p"
    using assms(2) by (rule foldl_errorEntry_skip)
  also have "\<dots> = Some (formatMessage env m)"
    using assms(3,4,5,6) by (rule foldl_errorEntry_last)
  finally show ?thesis .
qed

lemma password_errors_failed:
  "validateField (normalizeData d) (''password'', passwordSchema) =
     map (\<lambda>c. \<lparr>path = Some ''password'', message = MessageObject (snd c)\<rparr>)
       (filter (\<lambda>c. \<not> fst c)
          [(8 \<le> length (password d), minLengthMessage),
           (list_ex lower_az (password d), lowercaseMessage),
           (list_ex upper_AZ (password d), uppercaseMessage),
           (list_ex digit (password d), numberMessage),
           (password d \<noteq> [], passwordRequiredMessage)])"
  by (simp add: validateField_password [OF getProp_normalizeData(4)])

lemma validate_split_password:
  "\<exists>pre post.
     validate (selectSchema env a) (normalizeData d) =
       pre @ validateField (normalizeData d) (''password'', passwordSchema) @ post \<and>
     (\<forall>e \<in> set post. path e \<noteq> Some ''password'')"
proof (cases a)
  case True
  let ?post = "validateField (normalizeData d) (''confirmPassword'', confirmPasswordSchema) @
     validateField (normalizeData d)
       (''email'',
        chain [yup_email (isEmail env) (msg (Translated ''email'') ''Not a valid email''),
               yup_strict,
               yup_lowercase (toLowerCase env) (msg (Translated ''lowercase'') ''Email must be lowercase''),
               required (msg (Translated ''required'') ''Email is required'')])"
  have "\<forall>e \<in> set ?post. path e \<noteq> Some ''password''"
    by (auto dest: path_validateField)
  moreover have "validate (selectSchema env a) (normalizeData d) =
      validateField (normalizeData d) (''firstname'', firstnameSchema) @
      validateField (normalizeData d) (''password'', passwordSchema) @ ?post"
    using True by (simp add: selectSchema_def validate_admin)
  ultimately show ?thesis by blast
next
  case False
  let ?post = "validateField (normalizeData d) (''confirmPassword'', confirmPasswordSchema) @
     validateField (normalizeData d)
       (''registrationToken'',
        chain [required (msg (Translated ''required'') ''Registration token is required'')])"
  have "\<forall>e \<in> set ?post. path e \<noteq> Some ''password''"
    by (auto dest: path_validateField)
  moreover have "validate (selectSchema env a) (normalizeData d) =
      validateField (normalizeData d) (''firstname'', firstnameSchema) @
      validateField (normalizeData d) (''password'', passwordSchema) @ ?post"
    using False by (simp add: selectSchema_def validate_user)
  ultimately show ?thesis by blast
qed

lemma validate_split_confirmPassword:
  "\<exists>pre post.
     validate (selectSchema env a) (normalizeData d) =
       pre @ validateField (normalizeData d) (''confirmPassword'', confirmPasswordSchema) @ post \<and>
     (\<forall>e \<in> set post. path e \<noteq> Some ''confirmPassword'')"
proof (cases a)
  case True
  let ?pre = "validateField (normalizeData d) (''firstname'', firstnameSchema) @
              validateField (normalizeData d) (''password'', passwordSchema)"
  let ?post = "validateField (normalizeData d)
       (''email'',
        chain [yup_email (isEmail env) (msg (Translated ''email'') ''Not a valid email''),
               yup_strict,
               yup_lowercase (toLowerCase env) (msg (Translated ''lowercase'') ''Email must be lowercase''),
               required (msg (Translated ''required'') ''Email is required'')])"
  have "\<forall>e \<in> set ?post. path e \<noteq> Some ''confirmPassword''"
    by (auto dest: path_validateField)
  moreover have "validate (selectSchema env a) (normalizeData d) =
      ?pre @ validateField (normalizeData d) (''confirmPassword'', confirmPasswordSchema) @ ?post"
    using True by (simp add: selectSchema_def validate_admin)
  ultimately show ?thesis by blast
next
  case False
  let ?pre = "validateField (normalizeData d) (''firstname'', firstnameSchema) @
              validateField (normalizeData d) (''password'', passwordSchema)"
  let ?post = "validateField (normalizeData d)
       (''registrationToken'',
        chain [required (msg (Translated ''required'') ''Registration token is required'')])"
  have "\<forall>e \<in> set ?post. path e \<noteq> Some ''confirmPassword''"
    by (auto dest: path_validateField)
  moreover have "validate (selectSchema env a) (normalizeData d) =
      ?pre @ validateField (normalizeData d) (''confirmPassword'', confirmPasswordSchema) @ ?post"
    using False by (simp add: selectSchema_def validate_user)
  ultimately show ?thesis by blast
qed

lemma network_handleError: "filter isNetworkCall (handleError env e) = []"
  by (simp add: handleError_def)

lemma network_handleRegisterAdmin:
  "filter isNetworkCall (handleRegisterAdmin env arg) = [CallRegisterAdmin (omit arg [''news''])]"
  by (cases "registerAdmin env (omit arg [''news''])")
     (simp_all add: handleRegisterAdmin_def Let_def network_handleError split: option.splits)

lemma network_handleRegisterUser:
  "filter isNetworkCall (handleRegisterUser env h arg) = [CallRegisterUser (omit arg [''news''])]"
  by (cases "registerUser env (omit arg [''news''])")
     (simp_all add: handleRegisterUser_def Let_def network_handleError)

lemma omit_userInfo:
  "omit (normalizeData d) [''registrationToken'', ''confirmPassword'', ''email'', ''news''] =
     [(''firstname'', JString (trim (firstname d))),
      (''lastname'', if lastname d \<noteq> [] then JString (lastname d) else JUndefined),
      (''password'', JString (password d))]"
  by (simp add: normalizeData_eq omit_def)

lemma omit_adminBody:
  "omit (omit (normalizeData d) [''registrationToken'', ''confirmPassword'']) [''news''] =
     [(''firstname'', JString (trim (firstname d))),
      (''lastname'', if lastname d \<noteq> [] then JString (lastname d) else JUndefined),
      (''email'', JString (trim (email d))),
      (''password'', JString (password d))]"
  by (simp add: normalizeData_eq omit_def)

lemma truthy_token:
  "truthy (optString (map_option trim tok)) \<longleftrightarrow>
     (case tok of None \<Rightarrow> False | Some t \<Rightarrow> trim t \<noteq> [])"
  by (simp add: optString_def split: option.splits)

lemma network_onSubmit:
  "filter isNetworkCall (onSubmit env h a n d) =
     (if validate (selectSchema env a) (normalizeData d) = []
      then [if (case registrationToken d of None \<Rightarrow> False | Some t \<Rightarrow> trim t \<noteq> [])
            then CallRegisterUser
                   [(''userInfo'',
                     JObject [(''firstname'', JString (trim (firstname d))),
                              (''lastname'',
                               if lastname d \<noteq> [] then JString (lastname d) else JUndefined),
                              (''password'', JString (password d))]),
                    (''registrationToken'', optString (map_option trim (registrationToken d)))]
            else CallRegisterAdmin
                   [(''firstname'', JString (trim (firstname d))),
                    (''lastname'',
                     if lastname d \<noteq> [] then JString (lastname d) else JUndefined),
                    (''email'', JString (trim (email d))),
                    (''password'', JString (password d))]]
      else [])"
  by (simp add: onSubmit_def Let_def truthy_token network_handleRegisterAdmin
        network_handleRegisterUser omit_userInfo omit_adminBody getProp_normalizeData
        omit_def [of "[_, _, _]"])

lemma user_schema_requires_token:
  "validate REGISTER_USER_SCHEMA (normalizeData d) = [] \<Longrightarrow>
   (case registrationToken d of None \<Rightarrow> False | Some t \<Rightarrow> trim t \<noteq> [])"
  by (simp add: validate_user validateField_token [OF getProp_normalizeData(6)]
      split: option.splits if_splits)

subsection \<open>The values as typed, before normalizeData\<close>

lemma castObject_admin_entries:
  "castObject (REGISTER_ADMIN_SCHEMA isE lc) (entries d) =
     [(''firstname'', JString (trim (firstname d))),
      (''lastname'', JString (lastname d)),
      (''email'', JString (email d)),
      (''password'', JString (password d)),
      (''confirmPassword'', JString (confirmPassword d)),
      (''registrationToken'', optString (registrationToken d)),
      (''news'', JBool (news d))]"
  by (simp add: entries_def castObject_def REGISTER_ADMIN_SCHEMA_def castField_def
      firstnameSchema_eq passwordSchema_eq confirmPasswordSchema_eq emailSchema_eq
      nullableSchema_eq optString_def split: option.splits)

lemma validate_admin_entries:
  "validate (REGISTER_ADMIN_SCHEMA isE lc) (entries d) =
     validateField (castObject (REGISTER_ADMIN_SCHEMA isE lc) (entries d))
       (''firstname'', firstnameSchema) @
     validateField (castObject (REGISTER_ADMIN_SCHEMA isE lc) (entries d))
       (''password'', passwordSchema) @
     validateField (castObject (REGISTER_ADMIN_SCHEMA isE lc) (entries d))
       (''confirmPassword'', confirmPasswordSchema) @
     validateField (castObject (REGISTER_ADMIN_SCHEMA isE lc) (entries d))
       (''email'',
        chain [yup_email isE (msg (Translated ''email'') ''Not a valid email''),
               yup_strict,
               yup_lowercase lc (msg (Translated ''lowercase'') ''Email must be lowercase''),
               required (msg (Translated ''required'') ''Email is required'')])"
  unfolding validate_def Let_def
  by (simp add: REGISTER_ADMIN_SCHEMA_def validateField_lastname)

lemma getProp_castObject_admin_entries:
  "getProp (castObject (REGISTER_ADMIN_SCHEMA isE lc) (entries d)) ''firstname'' =
     JString (trim (firstname d))"
  "getProp (castObject (REGISTER_ADMIN_SCHEMA isE lc) (entries d)) ''email'' = JString (email d)"
  "getProp (castObject (REGISTER_ADMIN_SCHEMA isE lc) (entries d)) ''password'' =
     JString (password d)"
  "getProp (castObject (REGISTER_ADMIN_SCHEMA isE lc) (entries d)) ''confirmPassword'' =
     JString (confirmPassword d)"
  by (simp_all add: castObject_admin_entries getProp_def)

section \<open>The claims\<close>

text \<open>
  Claim C1. \<open>onSubmit\<close> normalizes the values first and validates the normalized
  values. A submission whose normalized values fail the schema of its variant sets the
  field errors and the submit count and does nothing else: no call to \<open>registerAdmin\<close>
  or \<open>registerUser\<close> is made. The field-error state is not empty and holds exactly one
  message for each field the validation reported.
\<close>

theorem invalid_submission_stops:
  assumes "validate (selectSchema env a) (normalizeData d) \<noteq> []"
  shows "\<exists>errors.
           onSubmit env h a n d = [SetErrors errors, SetSubmitCount (n + 1)] \<and>
           errors \<noteq> [] \<and>
           distinct (map fst errors) \<and>
           fst ` set errors =
             {p. \<exists>e \<in> set (validate (selectSchema env a) (normalizeData d)). path e = Some p} \<and>
           filter isNetworkCall (onSubmit env h a n d) = []"
proof -
  let ?inner = "validate (selectSchema env a) (normalizeData d)"
  let ?errors = "foldl (errorEntry env) [] ?inner"
  have run: "onSubmit env h a n d = [SetErrors ?errors, SetSubmitCount (n + 1)]"
    using assms by (rule onSubmit_invalid)
  have wf: "\<forall>e \<in> set ?inner. \<exists>p m. path e = Some p \<and> p \<noteq> [] \<and> message e = MessageObject m"
    using wellFormed_validate by blast
  have keys: "fst ` set ?errors = {p. \<exists>e \<in> set ?inner. path e = Some p}"
    using keys_foldl_errorEntry [OF wf, of env "[]"] by simp
  from assms obtain e where "e \<in> set ?inner" by (cases ?inner) auto
  moreover from this wf obtain p where "path e = Some p" by blast
  ultimately have "p \<in> {p. \<exists>e \<in> set ?inner. path e = Some p}" by blast
  then have "p \<in> fst ` set ?errors" unfolding keys .
  then have nonempty: "?errors \<noteq> []" by auto
  have dist: "distinct (map fst ?errors)"
    by (rule distinct_foldl_errorEntry) simp
  from run nonempty dist keys show ?thesis by simp
qed

theorem invalid_submission_stops_witness:
  "validate (selectSchema sampleEnv False)
     (normalizeData \<lparr>firstname = str ''Ann'', lastname = [], email = [],
        password = str ''abc'', confirmPassword = str ''abc'',
        registrationToken = Some (str ''tok''), news = False\<rparr>) \<noteq> [] \<and>
   (\<exists>errors.
      onSubmit sampleEnv None False 0
        \<lparr>firstname = str ''Ann'', lastname = [], email = [],
         password = str ''abc'', confirmPassword = str ''abc'',
         registrationToken = Some (str ''tok''), news = False\<rparr> =
      [SetErrors errors, SetSubmitCount 1] \<and> errors \<noteq> [])"
proof -
  let ?d = "\<lparr>firstname = str ''Ann'', lastname = [], email = [],
              password = str ''abc'', confirmPassword = str ''abc'',
              registrationToken = Some (str ''tok''), news = False\<rparr>"
  have invalid: "validate (selectSchema sampleEnv False) (normalizeData ?d) \<noteq> []"
    by (simp add: selectSchema_def validate_user
          validateField_password [OF getProp_normalizeData(4)] str_def)
  from invalid_submission_stops [OF invalid, of None 0] invalid show ?thesis
    by auto
qed

text \<open>
  The values as typed may fail the schema and the call still be made. On
  \<open>register-admin\<close>, an e-mail address typed with a space on both sides fails the
  e-mail rule of the admin schema (the field is strict, so the schema does not trim
  it); \<open>normalizeData\<close> trims it, the normalized values pass, and \<open>registerAdmin\<close> is
  called.
\<close>

theorem typed_values_fail_but_call_is_made_counterexample:
  "validate (selectSchema sampleEnv True)
     (entries \<lparr>firstname = str ''Ann'', lastname = str ''Lee'',
        email = str '' ann@example.com '', password = str ''Abcdef12'',
        confirmPassword = str ''Abcdef12'', registrationToken = None, news = False\<rparr>) =
     [\<lparr>path = Some ''email'',
       message = MessageObject (msg (Translated ''email'') ''Not a valid email'')\<rparr>] \<and>
   onSubmit sampleEnv None True 0
     \<lparr>firstname = str ''Ann'', lastname = str ''Lee'',
      email = str '' ann@example.com '', password = str ''Abcdef12'',
      confirmPassword = str ''Abcdef12'', registrationToken = None, news = False\<rparr> =
     [CallRegisterAdmin
        [(''firstname'', JString (str ''Ann'')),
         (''lastname'', JString (str ''Lee'')),
         (''email'', JString (str ''ann@example.com'')),
         (''password'', JString (str ''Abcdef12''))],
      SetToken (str ''jwt''),
      AuthSet False ''GUIDED_TOUR_SKIPPED'' True,
      SetSkipped False,
      TrackUsage ''didLaunchGuidedtour'' None,
      NavigateTo (ToPath ''/'')]"
proof -
  let ?d = "\<lparr>firstname = str ''Ann'', lastname = str ''Lee'',
      email = str '' ann@example.com '', password = str ''Abcdef12'',
      confirmPassword = str ''Abcdef12'', registrationToken = None, news = False\<rparr>"
  have typed: "validate (selectSchema sampleEnv True) (entries ?d) =
     [\<lparr>path = Some ''email'',
       message = MessageObject (msg (Translated ''email'') ''Not a valid email'')\<rparr>]"
    by (simp add: selectSchema_def validate_admin_entries
          validateField_firstname [OF getProp_castObject_admin_entries(1)]
          validateField_password [OF getProp_castObject_admin_entries(3)]
          validateField_confirmPassword
            [OF getProp_castObject_admin_entries(3) getProp_castObject_admin_entries(4)]
          validateField_email [OF getProp_castObject_admin_entries(2)]
          sampleEnv_def str_def trim_def isWhiteSpace_def lower_az_def upper_AZ_def digit_def)
  have valid: "validate (selectSchema sampleEnv True) (normalizeData ?d) = []"
    by (simp add: selectSchema_def validate_admin
          validateField_firstname [OF getProp_normalizeData(1)]
          validateField_password [OF getProp_normalizeData(4)]
          validateField_confirmPassword [OF getProp_normalizeData(4) getProp_normalizeData(5)]
          validateField_email [OF getProp_normalizeData(3)]
          sampleEnv_def str_def trim_def isWhiteSpace_def lower_az_def upper_AZ_def digit_def)
  have token: "getProp (normalizeData ?d) ''registrationToken'' = JUndefined"
    by (simp add: getProp_normalizeData optString_def)
  have body: "omit (omit (normalizeData ?d) [''registrationToken'', ''confirmPassword''])
                [''news''] =
              [(''firstname'', JString (str ''Ann'')),
               (''lastname'', JString (str ''Lee'')),
               (''email'', JString (str ''ann@example.com'')),
               (''password'', JString (str ''Abcdef12''))]"
    by (simp add: omit_adminBody str_def trim_def isWhiteSpace_def)
  have news: "getProp (omit (normalizeData ?d) [''registrationToken'', ''confirmPassword''])
                ''news'' = JBool False"
    by (simp add: normalizeData_eq omit_def getProp_def)
  have "onSubmit sampleEnv None True 0 ?d =
     [CallRegisterAdmin
        [(''firstname'', JString (str ''Ann'')),
         (''lastname'', JString (str ''Lee'')),
         (''email'', JString (str ''ann@example.com'')),
         (''password'', JString (str ''Abcdef12''))],
      SetToken (str ''jwt''),
      AuthSet False ''GUIDED_TOUR_SKIPPED'' True,
      SetSkipped False,
      TrackUsage ''didLaunchGuidedtour'' None,
      NavigateTo (ToPath ''/'')]"
    by (simp add: onSubmit_def Let_def valid token)
       (simp add: handleRegisterAdmin_def Let_def body news sampleEnv_def sampleData_def)
  with typed show ?thesis by (intro conjI)
qed

text \<open>
  Claim C2. The registration form surfaces one message for the password field, and it
  is the message of the last failing check, not of the first: the schema is run with
  \<open>abortEarly: false\<close>, so \<open>err.inner\<close> holds an error for every failing check of the
  chain (minimum length 8, a lowercase letter, an uppercase letter, a digit, required),
  in that order, and the reducer of the \<open>catch\<close> block overwrites \<open>acc[path]\<close> with each
  of them in turn. The theorem holds for both variants of the form.
\<close>

theorem password_message_is_last_failing:
  assumes "failed =
             filter (\<lambda>c. \<not> fst c)
               [(8 \<le> length (password d), minLengthMessage),
                (list_ex lower_az (password d), lowercaseMessage),
                (list_ex upper_AZ (password d), uppercaseMessage),
                (list_ex digit (password d), numberMessage),
                (password d \<noteq> [], passwordRequiredMessage)]"
    and "failed \<noteq> []"
  shows "\<exists>errors.
           onSubmit env h a n d = [SetErrors errors, SetSubmitCount (n + 1)] \<and>
           filter (\<lambda>kv. fst kv = ''password'') errors =
             [(''password'', formatMessage env (snd (last failed)))]"
proof -
  let ?own = "validateField (normalizeData d) (''password'', passwordSchema)"
  let ?inner = "validate (selectSchema env a) (normalizeData d)"
  have own: "?own = map (\<lambda>c. \<lparr>path = Some ''password'', message = MessageObject (snd c)\<rparr>) failed"
    unfolding assms(1) by (rule password_errors_failed)
  with assms(2) have nonempty: "?own \<noteq> []" by simp
  have paths: "\<forall>e \<in> set ?own. path e = Some ''password''"
    by (auto dest: path_validateField)
  have last: "message (last ?own) = MessageObject (snd (last failed))"
    using assms(2) by (simp add: own last_map)
  obtain pre post where split: "?inner = pre @ ?own @ post"
    and post: "\<forall>e \<in> set post. path e \<noteq> Some ''password''"
    using validate_split_password by blast
  from split nonempty have "?inner \<noteq> []" by simp
  then have run: "onSubmit env h a n d =
      [SetErrors (foldl (errorEntry env) [] ?inner), SetSubmitCount (n + 1)]"
    by (rule onSubmit_invalid)
  have "map_of (foldl (errorEntry env) [] ?inner) ''password'' =
          Some (formatMessage env (snd (last failed)))"
    using split post nonempty paths _ last by (rule foldl_errorEntry_field) simp
  moreover have "distinct (map fst (foldl (errorEntry env) [] ?inner))"
    by (rule distinct_foldl_errorEntry) simp
  ultimately have "filter (\<lambda>kv. fst kv = ''password'') (foldl (errorEntry env) [] ?inner) =
      [(''password'', formatMessage env (snd (last failed)))]"
    by (rule filter_key_distinct [rotated])
  with run show ?thesis by blast
qed

theorem password_message_is_last_failing_witness:
  "\<exists>errors.
     onSubmit sampleEnv None False 0
       \<lparr>firstname = str ''Ann'', lastname = [], email = [],
        password = str ''abc'', confirmPassword = str ''abc'',
        registrationToken = Some (str ''tok''), news = False\<rparr> =
       [SetErrors errors, SetSubmitCount 1] \<and>
     filter (\<lambda>kv. fst kv = ''password'') errors =
       [(''password'', ''Password must contain at least 1 number'')]"
  using password_message_is_last_failing
    [OF refl, of "\<lparr>firstname = str ''Ann'', lastname = [], email = [],
        password = str ''abc'', confirmPassword = str ''abc'',
        registrationToken = Some (str ''tok''), news = False\<rparr>" sampleEnv None False 0]
  by (simp add: str_def lower_az_def upper_AZ_def digit_def sampleEnv_def numberMessage_def
        msg_def)

text \<open>
  The password \<open>abc\<close> fails the length check, the uppercase check and the digit check.
  The length check is the first of them, but the message surfaced is that of the digit
  check.
\<close>

theorem first_failing_check_counterexample:
  "onSubmit sampleEnv None False 0
     \<lparr>firstname = str ''Ann'', lastname = [], email = [],
      password = str ''abc'', confirmPassword = str ''abc'',
      registrationToken = Some (str ''tok''), news = False\<rparr> =
     [SetErrors [(''password'', ''Password must contain at least 1 number'')],
      SetSubmitCount 1] \<and>
   \<not> 8 \<le> length (str ''abc'') \<and>
   formatMessage sampleEnv minLengthMessage = ''Password must be at least 8 characters''"
proof -
  let ?d = "\<lparr>firstname = str ''Ann'', lastname = [], email = [],
      password = str ''abc'', confirmPassword = str ''abc'',
      registrationToken = Some (str ''tok''), news = False\<rparr>"
  have inner: "validate (selectSchema sampleEnv False) (normalizeData ?d) =
      [\<lparr>path = Some ''password'', message = MessageObject minLengthMessage\<rparr>,
       \<lparr>path = Some ''password'', message = MessageObject uppercaseMessage\<rparr>,
       \<lparr>path = Some ''password'', message = MessageObject numberMessage\<rparr>]"
    by (simp add: selectSchema_def validate_user
          validateField_firstname [OF getProp_normalizeData(1)]
          validateField_password [OF getProp_normalizeData(4)]
          validateField_confirmPassword [OF getProp_normalizeData(4) getProp_normalizeData(5)]
          validateField_token [OF getProp_normalizeData(6)]
          str_def trim_def isWhiteSpace_def lower_az_def upper_AZ_def digit_def)
  have "onSubmit sampleEnv None False 0 ?d =
      [SetErrors (foldl (errorEntry sampleEnv) []
         (validate (selectSchema sampleEnv False) (normalizeData ?d))),
       SetSubmitCount (0 + 1)]"
    by (rule onSubmit_invalid) (simp add: inner)
  moreover have fmt: "formatMessage sampleEnv = defaultMessage"
    by (simp add: sampleEnv_def)
  moreover have "foldl (errorEntry sampleEnv) []
      [\<lparr>path = Some ''password'', message = MessageObject minLengthMessage\<rparr>,
       \<lparr>path = Some ''password'', message = MessageObject uppercaseMessage\<rparr>,
       \<lparr>path = Some ''password'', message = MessageObject numberMessage\<rparr>] =
      [(''password'', ''Password must contain at least 1 number'')]"
    by (simp add: errorEntry_def fmt minLengthMessage_def uppercaseMessage_def
          numberMessage_def msg_def)
  ultimately have run: "onSubmit sampleEnv None False 0 ?d =
      [SetErrors [(''password'', ''Password must contain at least 1 number'')],
       SetSubmitCount 1]"
    by (simp add: inner)
  have short: "\<not> 8 \<le> length (str ''abc'')"
    by (simp add: str_def)
  have first: "formatMessage sampleEnv minLengthMessage = ''Password must be at least 8 characters''"
    by (simp add: sampleEnv_def minLengthMessage_def)
  from run short first show ?thesis by (intro conjI)
qed

text \<open>
  Claim C3. \<open>normalizeData\<close> is documented as trimming every value but the passwords
  and turning a falsy \<open>lastname\<close> into an absent value. The lemma \<open>normalizeData_eq\<close>
  above gives what the reducer computes: \<open>firstname\<close>, \<open>email\<close> and \<open>registrationToken\<close>
  are trimmed, the two passwords are kept as they are, an empty \<open>lastname\<close> becomes
  \<open>undefined\<close>, but a non-empty \<open>lastname\<close> is stored as typed: the trimmed string
  written first is overwritten by \<open>value || undefined\<close>. Here the function is run on a
  \<open>lastname\<close> with a space on both sides; it comes out with both spaces.
\<close>

theorem lastname_stored_untrimmed:
  "getProp
     (normalizeData \<lparr>firstname = str ''Ann'', lastname = str '' Doe '',
        email = str ''ann@example.com'', password = str ''Abcdef12'',
        confirmPassword = str ''Abcdef12'', registrationToken = None, news = False\<rparr>)
     ''lastname'' = JString (str '' Doe '') \<and>
   trim (str '' Doe '') = str ''Doe'' \<and>
   str '' Doe '' \<noteq> str ''Doe''"
  by (simp add: getProp_normalizeData str_def trim_def isWhiteSpace_def)

text \<open>
  Claim C4. When the auth service answers a registration with a base-query error named
  \<open>ValidationError\<close>, the handler that made the call tracks the failure and sets the
  field errors to \<open>formatValidationErrors\<close> of that error, and stops: it does not
  navigate. This holds for \<open>handleRegisterAdmin\<close> and for \<open>handleRegisterUser\<close>, each
  on its own answer.
\<close>

theorem server_validation_errors_shown:
  "(isBaseQueryError env e \<and> err_name e = Some ''ValidationError'' \<and>
    registerAdmin env (omit adminArg [''news'']) = Error e \<longrightarrow>
      handleRegisterAdmin env adminArg =
        [CallRegisterAdmin (omit adminArg [''news'']),
         TrackUsage ''didNotCreateFirstAdmin'' None,
         SetErrors (formatValidationErrors env e)] \<and>
      filter isNavigation (handleRegisterAdmin env adminArg) = []) \<and>
   (isBaseQueryError env' e' \<and> err_name e' = Some ''ValidationError'' \<and>
    registerUser env' (omit userArg [''news'']) = Error e' \<longrightarrow>
      handleRegisterUser env' hasAdmin userArg =
        [CallRegisterUser (omit userArg [''news'']),
         TrackUsage ''didNotCreateFirstAdmin'' None,
         SetErrors (formatValidationErrors env' e')] \<and>
      filter isNavigation (handleRegisterUser env' hasAdmin userArg) = [])"
  by (simp add: handleRegisterAdmin_def handleRegisterUser_def Let_def handleError_validation)

theorem server_validation_errors_shown_witness:
  "handleRegisterAdmin
     (sampleEnv\<lparr>registerAdmin :=
        \<lambda>body. Error \<lparr>err_name = Some ''ValidationError'', err_message = Some ''Invalid''\<rparr>\<rparr>)
     [(''firstname'', JString (str ''Ann'')), (''news'', JBool True)] =
     [CallRegisterAdmin [(''firstname'', JString (str ''Ann''))],
      TrackUsage ''didNotCreateFirstAdmin'' None,
      SetErrors [(''email'', ''Email already taken'')]] \<and>
   handleRegisterUser
     (sampleEnv\<lparr>registerUser :=
        \<lambda>body. Error \<lparr>err_name = Some ''ValidationError'', err_message = Some ''Invalid''\<rparr>\<rparr>)
     None
     [(''registrationToken'', JString (str ''tok'')), (''news'', JBool True)] =
     [CallRegisterUser [(''registrationToken'', JString (str ''tok''))],
      TrackUsage ''didNotCreateFirstAdmin'' None,
      SetErrors [(''email'', ''Email already taken'')]]"
proof -
  let ?e = "\<lparr>err_name = Some ''ValidationError'', err_message = Some ''Invalid''\<rparr>"
  let ?envA = "sampleEnv\<lparr>registerAdmin := \<lambda>body. Error ?e\<rparr>"
  let ?envU = "sampleEnv\<lparr>registerUser := \<lambda>body. Error ?e\<rparr>"
  let ?argA = "[(''firstname'', JString (str ''Ann'')), (''news'', JBool True)]"
  let ?argU = "[(''registrationToken'', JString (str ''tok'')), (''news'', JBool True)]"
  note both = server_validation_errors_shown [of ?envA ?e ?argA ?envU ?e ?argU None]
  have hypA: "isBaseQueryError ?envA ?e \<and> err_name ?e = Some ''ValidationError'' \<and>
              registerAdmin ?envA (omit ?argA [''news'']) = Error ?e"
    by (simp add: sampleEnv_def)
  have hypU: "isBaseQueryError ?envU ?e \<and> err_name ?e = Some ''ValidationError'' \<and>
              registerUser ?envU (omit ?argU [''news'']) = Error ?e"
    by (simp add: sampleEnv_def)
  from both [THEN conjunct1, THEN mp, OF hypA, THEN conjunct1]
  have admin: "handleRegisterAdmin ?envA ?argA =
      [CallRegisterAdmin [(''firstname'', JString (str ''Ann''))],
       TrackUsage ''didNotCreateFirstAdmin'' None,
       SetErrors [(''email'', ''Email already taken'')]]"
    by (simp add: sampleEnv_def omit_def)
  from both [THEN conjunct2, THEN mp, OF hypU, THEN conjunct1]
  have user: "handleRegisterUser ?envU None ?argU =
      [CallRegisterUser [(''registrationToken'', JString (str ''tok''))],
       TrackUsage ''didNotCreateFirstAdmin'' None,
       SetErrors [(''email'', ''Email already taken'')]]"
    by (simp add: sampleEnv_def omit_def)
  from admin user show ?thesis by (intro conjI)
qed

text \<open>
  Claim C5. After a successful admin registration whose user has a role with code
  \<open>strapi-super-admin\<close>, the handler stores the token of the answer, resets the guided
  tour, and then navigates: to \<open>/usecase\<close> with the search \<open>?hasAdmin=true\<close> when the
  \<open>news\<close> box is ticked, to \<open>/\<close> otherwise. The token is stored before the navigation.
\<close>

theorem super_admin_navigation:
  assumes "registerAdmin env (omit arg [''news'']) = Data d"
    and "roles (user d) = Some rs"
    and "list_ex (\<lambda>r. code r = str ''strapi-super-admin'') rs"
    and "getProp arg ''news'' = JBool checked"
  shows "handleRegisterAdmin env arg =
           [CallRegisterAdmin (omit arg [''news'']),
            SetToken (token d),
            AuthSet False ''GUIDED_TOUR_SKIPPED'' True,
            SetSkipped False,
            TrackUsage ''didLaunchGuidedtour'' None] @
           (if checked
            then [EnableNpsSurvey, NavigateTo (ToLocation ''/usecase'' ''?hasAdmin=true'')]
            else [NavigateTo (ToPath ''/'')])"
proof -
  from assms(3) have "find (\<lambda>r. code r = str ''strapi-super-admin'') rs \<noteq> None"
    by (auto simp: find_None_iff list_ex_iff)
  with assms(1,2,4) show ?thesis
    by (simp add: handleRegisterAdmin_def Let_def template_def)
qed

theorem super_admin_navigation_witness:
  "handleRegisterAdmin sampleEnv
     [(''firstname'', JString (str ''Ann'')), (''news'', JBool True)] =
     [CallRegisterAdmin [(''firstname'', JString (str ''Ann''))],
      SetToken (str ''jwt''),
      AuthSet False ''GUIDED_TOUR_SKIPPED'' True,
      SetSkipped False,
      TrackUsage ''didLaunchGuidedtour'' None,
      EnableNpsSurvey,
      NavigateTo (ToLocation ''/usecase'' ''?hasAdmin=true'')] \<and>
   handleRegisterAdmin sampleEnv
     [(''firstname'', JString (str ''Ann'')), (''news'', JBool False)] =
     [CallRegisterAdmin [(''firstname'', JString (str ''Ann''))],
      SetToken (str ''jwt''),
      AuthSet False ''GUIDED_TOUR_SKIPPED'' True,
      SetSkipped False,
      TrackUsage ''didLaunchGuidedtour'' None,
      NavigateTo (ToPath ''/'')]"
  using super_admin_navigation
    [of sampleEnv "[(''firstname'', JString (str ''Ann'')), (''news'', JBool True)]"
        sampleData "[\<lparr>code = str ''strapi-super-admin''\<rparr>]" True]
    super_admin_navigation
    [of sampleEnv "[(''firstname'', JString (str ''Ann'')), (''news'', JBool False)]"
        sampleData "[\<lparr>code = str ''strapi-super-admin''\<rparr>]" False]
  by (simp add: sampleEnv_def sampleData_def omit_def getProp_def)

text \<open>
  Claim C6. The reset-password form mounted with the query parameter \<open>code\<close> equal to
  \<open>abc123\<close> and submitted with \<open>Abcdef12\<close> in both fields makes one call to the auth
  service, \<open>resetPassword\<close> with the body \<open>{password: "Abcdef12", resetPasswordToken:
  "abc123"}\<close>, whatever the service then answers: the values pass the schema, the
  submit handler of the source makes this one call, and so does the submission through
  the form.
\<close>

theorem reset_dispatches_once:
  "validate RESET_PASSWORD_SCHEMA (resetFormValues (str ''Abcdef12'') (str ''Abcdef12'')) = [] \<and>
   filter isNetworkCall
     (resetOnSubmit env (Some (str ''abc123''))
        (resetFormValues (str ''Abcdef12'') (str ''Abcdef12''))) =
     [CallResetPassword
        [(''password'', JString (str ''Abcdef12'')),
         (''resetPasswordToken'', JString (str ''abc123''))]] \<and>
   filter isNetworkCall
     (submitResetPassword env (Some (str ''abc123''))
        (resetFormValues (str ''Abcdef12'') (str ''Abcdef12''))) =
     [CallResetPassword
        [(''password'', JString (str ''Abcdef12'')),
         (''resetPasswordToken'', JString (str ''abc123''))]]"
proof -
  have form: "ResetPassword (Some (str ''abc123'')) = ResetPasswordForm"
    by (simp add: ResetPassword_def optString_def str_def)
  have call: "filter isNetworkCall
      (resetOnSubmit env (Some (str ''abc123''))
         (resetFormValues (str ''Abcdef12'') (str ''Abcdef12''))) =
      [CallResetPassword
         [(''password'', JString (str ''Abcdef12'')),
          (''resetPasswordToken'', JString (str ''abc123''))]]"
    by (cases "resetPassword env
                 [(''password'', JString (str ''Abcdef12'')),
                  (''resetPasswordToken'', JString (str ''abc123''))]")
       (simp_all add: resetOnSubmit_def handleSubmit_def getProp_resetFormValues optString_def)
  then have "filter isNetworkCall
      (submitResetPassword env (Some (str ''abc123''))
         (resetFormValues (str ''Abcdef12'') (str ''Abcdef12''))) =
      [CallResetPassword
         [(''password'', JString (str ''Abcdef12'')),
          (''resetPasswordToken'', JString (str ''abc123''))]]"
    by (simp add: submitResetPassword_def form Form_submit_def validate_reset_valid)
  with validate_reset_valid call show ?thesis by (intro conjI)
qed

theorem reset_dispatches_once_witness:
  "filter isNetworkCall
     (submitResetPassword sampleEnv (Some (str ''abc123''))
        (resetFormValues (str ''Abcdef12'') (str ''Abcdef12''))) =
     [CallResetPassword
        [(''password'', JString (str ''Abcdef12'')),
         (''resetPasswordToken'', JString (str ''abc123''))]]"
  using reset_dispatches_once [of sampleEnv] by (rule conjunct2 [THEN conjunct2])

text \<open>
  Claim C7. A mount whose entry condition fails renders a redirect and not the form:
  the reset-password view without a \<open>code\<close> query parameter (or with an empty one)
  renders \<open>Navigate\<close> to \<open>/auth/login\<close>; the registration view on a route that is not
  matched, or whose parameter is neither \<open>register\<close> nor \<open>register-admin\<close>, renders
  \<open>Navigate\<close> to \<open>/\<close>.
\<close>

theorem guards_redirect:
  assumes "queryCode = None \<or> queryCode = Some []"
    and "match \<noteq> Some ''register''" and "match \<noteq> Some ''register-admin''"
  shows "ResetPassword queryCode = Navigate ''/auth/login'' \<and>
         Register match = Navigate ''/''"
  using assms
  by (auto simp: ResetPassword_def optString_def Register_def split: option.splits)

theorem guards_redirect_witness:
  "ResetPassword None = Navigate ''/auth/login'' \<and>
   Register (Some ''login'') = Navigate ''/'' \<and>
   Register None = Navigate ''/''"
  using guards_redirect [of None "Some ''login''"] guards_redirect [of None None]
  by simp

text \<open>
  Claim C8. Whenever \<open>confirmPassword\<close> differs from \<open>password\<close>, whatever the password
  is, the registration form (both variants) sets a field error for \<open>confirmPassword\<close>,
  and the reset-password schema reports an error at the path \<open>confirmPassword\<close>.
\<close>

theorem confirmPassword_mismatch_reported:
  assumes "confirmPassword d \<noteq> password d" and "c \<noteq> pw"
  shows "(\<exists>errors.
            onSubmit env h a n d = [SetErrors errors, SetSubmitCount (n + 1)] \<and>
            ''confirmPassword'' \<in> fst ` set errors) \<and>
         list_ex (\<lambda>e. path e = Some ''confirmPassword'')
           (validate RESET_PASSWORD_SCHEMA (resetFormValues pw c))"
proof
  let ?own = "validateField (normalizeData d) (''confirmPassword'', confirmPasswordSchema)"
  let ?inner = "validate (selectSchema env a) (normalizeData d)"
  have own: "?own = [\<lparr>path = Some ''confirmPassword'', message = MessageObject noMatchMessage\<rparr>]"
    using assms(1)
    by (auto simp: validateField_confirmPassword [OF getProp_normalizeData(4) getProp_normalizeData(5)])
  obtain pre post where split: "?inner = pre @ ?own @ post"
    and post: "\<forall>e \<in> set post. path e \<noteq> Some ''confirmPassword''"
    using validate_split_confirmPassword by blast
  from split own have "?inner \<noteq> []" by simp
  then have run: "onSubmit env h a n d =
      [SetErrors (foldl (errorEntry env) [] ?inner), SetSubmitCount (n + 1)]"
    by (rule onSubmit_invalid)
  have "map_of (foldl (errorEntry env) [] ?inner) ''confirmPassword'' =
          Some (formatMessage env noMatchMessage)"
    using split post by (rule foldl_errorEntry_field) (simp_all add: own)
  then have "''confirmPassword'' \<in> fst ` set (foldl (errorEntry env) [] ?inner)"
    by (metis domI dom_map_of_conv_image_fst)
  with run show "\<exists>errors.
            onSubmit env h a n d = [SetErrors errors, SetSubmitCount (n + 1)] \<and>
            ''confirmPassword'' \<in> fst ` set errors" by blast
next
  show "list_ex (\<lambda>e. path e = Some ''confirmPassword'')
           (validate RESET_PASSWORD_SCHEMA (resetFormValues pw c))"
    using assms(2)
    by (auto simp: validate_reset list_ex_iff
          validateField_confirmPassword [OF getProp_resetFormValues(1) getProp_resetFormValues(2)])
qed

theorem confirmPassword_mismatch_reported_witness:
  "(\<exists>errors.
      onSubmit sampleEnv None True 0
        \<lparr>firstname = str ''Ann'', lastname = [], email = str ''ann@example.com'',
         password = str ''abc'', confirmPassword = str ''abd'',
         registrationToken = None, news = False\<rparr> =
        [SetErrors errors, SetSubmitCount 1] \<and>
      ''confirmPassword'' \<in> fst ` set errors) \<and>
   list_ex (\<lambda>e. path e = Some ''confirmPassword'')
     (validate RESET_PASSWORD_SCHEMA (resetFormValues (str ''abc'') (str ''abd'')))"
  using confirmPassword_mismatch_reported
    [of "\<lparr>firstname = str ''Ann'', lastname = [], email = str ''ann@example.com'',
         password = str ''abc'', confirmPassword = str ''abd'',
         registrationToken = None, news = False\<rparr>"
        "str ''abd''" "str ''abc''" sampleEnv None True 0]
  by (simp add: str_def)

text \<open>
  Claim C9. The route parameter selects the schema: the user schema on \<open>register\<close>, the
  admin schema on \<open>register-admin\<close>. The endpoint and the shape of the body are
  selected by something else, the normalized \<open>registrationToken\<close> of the form values
  (the form takes it from the query string): when it is a non-empty string,
  \<open>registerUser\<close> is called with \<open>{userInfo: {firstname, lastname, password},
  registrationToken}\<close>; otherwise \<open>registerAdmin\<close> is called with the flat body
  \<open>{firstname, lastname, email, password}\<close>. On \<open>register\<close> the two agree, since the
  user schema requires the token. A submission makes a call only when its values pass
  the schema, and then exactly one.
\<close>

theorem route_selects_schema_token_selects_call:
  "filter isNetworkCall (submitRegister env h (Some ''register'') n d) =
     (if validate REGISTER_USER_SCHEMA (normalizeData d) = []
      then [CallRegisterUser
              [(''userInfo'',
                JObject [(''firstname'', JString (trim (firstname d))),
                         (''lastname'',
                          if lastname d \<noteq> [] then JString (lastname d) else JUndefined),
                         (''password'', JString (password d))]),
               (''registrationToken'', optString (map_option trim (registrationToken d)))]]
      else []) \<and>
   filter isNetworkCall (submitRegister env h (Some ''register-admin'') n d) =
     (if validate (REGISTER_ADMIN_SCHEMA (isEmail env) (toLowerCase env)) (normalizeData d) = []
      then [if (case registrationToken d of None \<Rightarrow> False | Some t \<Rightarrow> trim t \<noteq> [])
            then CallRegisterUser
                   [(''userInfo'',
                     JObject [(''firstname'', JString (trim (firstname d))),
                              (''lastname'',
                               if lastname d \<noteq> [] then JString (lastname d) else JUndefined),
                              (''password'', JString (password d))]),
                    (''registrationToken'', optString (map_option trim (registrationToken d)))]
            else CallRegisterAdmin
                   [(''firstname'', JString (trim (firstname d))),
                    (''lastname'',
                     if lastname d \<noteq> [] then JString (lastname d) else JUndefined),
                    (''email'', JString (trim (email d))),
                    (''password'', JString (password d))]]
      else [])"
proof
  have form: "Register (Some ''register'') = RegisterForm False"
    by (simp add: Register_def)
  show "filter isNetworkCall (submitRegister env h (Some ''register'') n d) =
     (if validate REGISTER_USER_SCHEMA (normalizeData d) = []
      then [CallRegisterUser
              [(''userInfo'',
                JObject [(''firstname'', JString (trim (firstname d))),
                         (''lastname'',
                          if lastname d \<noteq> [] then JString (lastname d) else JUndefined),
                         (''password'', JString (password d))]),
               (''registrationToken'', optString (map_option trim (registrationToken d)))]]
      else [])"
    using user_schema_requires_token [of d]
    by (simp add: submitRegister_def form network_onSubmit selectSchema_def)
next
  have form: "Register (Some ''register-admin'') = RegisterForm True"
    by (simp add: Register_def)
  show "filter isNetworkCall (submitRegister env h (Some ''register-admin'') n d) =
     (if validate (REGISTER_ADMIN_SCHEMA (isEmail env) (toLowerCase env)) (normalizeData d) = []
      then [if (case registrationToken d of None \<Rightarrow> False | Some t \<Rightarrow> trim t \<noteq> [])
            then CallRegisterUser
                   [(''userInfo'',
                     JObject [(''firstname'', JString (trim (firstname d))),
                              (''lastname'',
                               if lastname d \<noteq> [] then JString (lastname d) else JUndefined),
                              (''password'', JString (password d))]),
                    (''registrationToken'', optString (map_option trim (registrationToken d)))]
            else CallRegisterAdmin
                   [(''firstname'', JString (trim (firstname d))),
                    (''lastname'',
                     if lastname d \<noteq> [] then JString (lastname d) else JUndefined),
                    (''email'', JString (trim (email d))),
                    (''password'', JString (password d))]]
      else [])"
    by (simp add: submitRegister_def form network_onSubmit selectSchema_def)
qed

theorem route_selects_schema_token_selects_call_witness:
  "filter isNetworkCall
     (submitRegister sampleEnv None (Some ''register-admin'') 0
        \<lparr>firstname = str ''Ann'', lastname = str ''Lee'', email = str ''ann@example.com'',
         password = str ''Abcdef12'', confirmPassword = str ''Abcdef12'',
         registrationToken = None, news = False\<rparr>) =
     [CallRegisterAdmin
        [(''firstname'', JString (str ''Ann'')),
         (''lastname'', JString (str ''Lee'')),
         (''email'', JString (str ''ann@example.com'')),
         (''password'', JString (str ''Abcdef12''))]]"
proof -
  let ?d = "\<lparr>firstname = str ''Ann'', lastname = str ''Lee'', email = str ''ann@example.com'',
      password = str ''Abcdef12'', confirmPassword = str ''Abcdef12'',
      registrationToken = None, news = False\<rparr>"
  have valid: "validate (REGISTER_ADMIN_SCHEMA (isEmail sampleEnv) (toLowerCase sampleEnv))
                 (normalizeData ?d) = []"
    by (simp add: validate_admin
          validateField_firstname [OF getProp_normalizeData(1)]
          validateField_password [OF getProp_normalizeData(4)]
          validateField_confirmPassword [OF getProp_normalizeData(4) getProp_normalizeData(5)]
          validateField_email [OF getProp_normalizeData(3)]
          sampleEnv_def str_def trim_def isWhiteSpace_def lower_az_def upper_AZ_def digit_def)
  from route_selects_schema_token_selects_call [of sampleEnv None 0 ?d, THEN conjunct2]
  show ?thesis
    by (simp add: valid) (simp add: str_def trim_def isWhiteSpace_def)
qed

text \<open>
  The route \<open>register-admin\<close> opened with \<open>?registrationToken=tok\<close>: the form starts
  from its initial values, which carry the token, and the user fills in the name and
  the passwords. The values pass the admin schema, and the call made is \<open>registerUser\<close>
  with the wrapped body.
\<close>

theorem admin_route_calls_registerUser_counterexample:
  "submitRegister sampleEnv None (Some ''register-admin'') 0
     ((initialValues sampleEnv (Some (str ''tok'')))
        \<lparr>firstname := str ''Ann'', lastname := str ''Lee'',
         password := str ''Abcdef12'', confirmPassword := str ''Abcdef12''\<rparr>) =
     [CallRegisterUser
        [(''userInfo'',
          JObject [(''firstname'', JString (str ''Ann'')),
                   (''lastname'', JString (str ''Lee'')),
                   (''password'', JString (str ''Abcdef12''))]),
         (''registrationToken'', JString (str ''tok''))],
      SetToken (str ''jwt''),
      NavigateTo (ToPath ''/'')]"
proof -
  let ?d = "\<lparr>firstname = str ''Ann'', lastname = str ''Lee'', email = str ''ann@example.com'',
      password = str ''Abcdef12'', confirmPassword = str ''Abcdef12'',
      registrationToken = Some (str ''tok''), news = False\<rparr>"
  have filled: "(initialValues sampleEnv (Some (str ''tok'')))
        \<lparr>firstname := str ''Ann'', lastname := str ''Lee'',
         password := str ''Abcdef12'', confirmPassword := str ''Abcdef12''\<rparr> = ?d"
    by (simp add: initialValues_def useGetRegistrationInfoQuery_def sampleEnv_def
          orEmpty_def str_def)
  have form: "Register (Some ''register-admin'') = RegisterForm True"
    by (simp add: Register_def)
  have valid: "validate (selectSchema sampleEnv True) (normalizeData ?d) = []"
    by (simp add: selectSchema_def validate_admin
          validateField_firstname [OF getProp_normalizeData(1)]
          validateField_password [OF getProp_normalizeData(4)]
          validateField_confirmPassword [OF getProp_normalizeData(4) getProp_normalizeData(5)]
          validateField_email [OF getProp_normalizeData(3)]
          sampleEnv_def str_def trim_def isWhiteSpace_def lower_az_def upper_AZ_def digit_def)
  have token: "getProp (normalizeData ?d) ''registrationToken'' = JString (str ''tok'')"
    by (simp add: getProp_normalizeData optString_def str_def trim_def isWhiteSpace_def)
  have news: "getProp (normalizeData ?d) ''news'' = JBool False"
    by (simp add: getProp_normalizeData)
  have info: "omit (normalizeData ?d)
                [''registrationToken'', ''confirmPassword'', ''email'', ''news''] =
              [(''firstname'', JString (str ''Ann'')),
               (''lastname'', JString (str ''Lee'')),
               (''password'', JString (str ''Abcdef12''))]"
    by (simp add: omit_userInfo str_def trim_def isWhiteSpace_def)
  have "submitRegister sampleEnv None (Some ''register-admin'') 0 ?d =
     [CallRegisterUser
        [(''userInfo'',
          JObject [(''firstname'', JString (str ''Ann'')),
                   (''lastname'', JString (str ''Lee'')),
                   (''password'', JString (str ''Abcdef12''))]),
         (''registrationToken'', JString (str ''tok''))],
      SetToken (str ''jwt''),
      NavigateTo (ToPath ''/'')]"
    by (simp add: submitRegister_def form onSubmit_def Let_def valid token news info)
       (simp add: handleRegisterUser_def omit_def getProp_def sampleEnv_def sampleData_def
          str_def)
  then show ?thesis by (simp only: filled)
qed

text \<open>
  Claim C10. When the registration view is mounted with a non-empty
  \<open>registrationToken\<close> query parameter and the registration-info query answers with an
  error, the effect shows a warning notification and navigates to \<open>/auth/oops\<close> with
  the message, URI-encoded, as the \<open>info\<close> query parameter. The message is
  \<open>formatAPIError\<close> of a base-query error, and otherwise the error's own message, or
  the empty string when it has none.
\<close>

theorem registration_info_error_redirects:
  assumes "t \<noteq> []" and "getRegistrationInfo env t = Error e"
    and "m = (if isBaseQueryError env e then formatAPIError env e
              else (case err_message e of None \<Rightarrow> [] | Some x \<Rightarrow> x))"
  shows "registrationInfoEffect env (Some t) =
           [ToggleNotification ''warning'' m,
            NavigateTo (ToPath (''/auth/oops?info='' @ encodeURIComponent env m))]"
  using assms
  by (simp add: registrationInfoEffect_def useGetRegistrationInfoQuery_def Let_def)

theorem registration_info_error_redirects_witness:
  "registrationInfoEffect
     (sampleEnv\<lparr>getRegistrationInfo :=
        \<lambda>t. Error \<lparr>err_name = Some ''ApplicationError'', err_message = Some ''expired''\<rparr>\<rparr>)
     (Some (str ''tok'')) =
     [ToggleNotification ''warning'' ''expired'',
      NavigateTo (ToPath ''/auth/oops?info=expired'')]"
  using registration_info_error_redirects
    [of "str ''tok''"
        "sampleEnv\<lparr>getRegistrationInfo :=
           \<lambda>t. Error \<lparr>err_name = Some ''ApplicationError'', err_message = Some ''expired''\<rparr>\<rparr>"
        "\<lparr>err_name = Some ''ApplicationError'', err_message = Some ''expired''\<rparr>"
        "''expired''"]
  by (simp add: sampleEnv_def str_def)

end
